theory Spec2Isabelle
  imports Complex_Main "HOL-Library.AList"
begin

section \<open>The configuration loader of PySceneDetect's command line\<close>

text \<open>
  A shallow embedding of the typed option values, the schema, the structural validator,
  the value parser and the \<open>ConfigRegistry\<close> class.

  Conventions of the model.
  \<^item> An exception is a value of type \<open>exn\<close>; a function that can raise returns
    \<open>exn + 'a\<close>, with \<open>Inl\<close> for the exception.
  \<^item> A Python \<open>dict\<close> is an association list in insertion order, read with
    \<open>map_of\<close> and written with \<open>AList.update\<close> (overwrite in place, append when new).
  \<^item> Text is a \<open>string\<close> of 8-bit characters.
  \<^item> A Python \<open>int\<close> is an \<open>int\<close>. A Python \<open>float\<close> is a \<open>pyfloat\<close>: a finite
    value is kept as the rational it denotes (every binary64 number is one), beside the
    two infinities and NaN. Only comparisons are performed on floats, and those are
    exact in Python, also between \<open>int\<close> and \<open>float\<close>.
  \<^item> What the module takes from outside (the case mappings \<open>str.upper()\<close> and
    \<open>str.lower()\<close>, the readers \<open>int()\<close> and \<open>float()\<close>, \<open>str()\<close> of a number,
    \<open>FrameTimecode\<close>, the members of the imported enumerations, imported constants, the
    file system and \<open>ConfigParser.read_string\<close>) is a field of the record \<open>env\<close>, so
    every theorem holds for whatever these do.
\<close>

subsection \<open>Text\<close>

definition whitespace :: "char list" where
  "whitespace = [CHR 0x09, CHR 0x0A, CHR 0x0B, CHR 0x0C, CHR 0x0D, CHR 0x1C, CHR 0x1D,
     CHR 0x1E, CHR 0x1F, CHR 0x20, CHR 0x85, CHR 0xA0]"

definition isspace :: "char \<Rightarrow> bool" where
  "isspace c = (c \<in> set whitespace)"

text \<open>\<open>str.strip()\<close>\<close>

definition strip :: "string \<Rightarrow> string" where
  "strip s = rev (dropWhile isspace (rev (dropWhile isspace s)))"

text \<open>\<open>str.replace(old, new)\<close> for a one-character \<open>old\<close>\<close>

definition replace :: "char \<Rightarrow> string \<Rightarrow> string \<Rightarrow> string" where
  "replace old new s = concat (map (\<lambda>c. if c = old then new else [c]) s)"

text \<open>\<open>str.split()\<close> with no argument: the maximal runs of non-whitespace.\<close>

fun split_from :: "string \<Rightarrow> string \<Rightarrow> string list" where
  "split_from word [] = (if word = [] then [] else [word])"
| "split_from word (c # cs) =
     (if isspace c then (if word = [] then [] else [word]) @ split_from [] cs
      else split_from (word @ [c]) cs)"

definition split :: "string \<Rightarrow> string list" where
  "split s = split_from [] s"

text \<open>\<open>sep.join(words)\<close>\<close>

fun join :: "string \<Rightarrow> string list \<Rightarrow> string" where
  "join sep [] = []"
| "join sep [w] = w"
| "join sep (w # v # ws) = w @ sep @ join sep (v # ws)"

subsection \<open>Numbers\<close>

datatype pyfloat = Finite rat | PosInf | NegInf | NaN

datatype pynum = PyInt int | PyFloat pyfloat

fun as_float :: "pynum \<Rightarrow> pyfloat" where
  "as_float (PyInt i) = Finite (of_int i)"
| "as_float (PyFloat f) = f"

fun float_lt :: "pyfloat \<Rightarrow> pyfloat \<Rightarrow> bool" where
  "float_lt NaN b = False"
| "float_lt a NaN = False"
| "float_lt (Finite a) (Finite b) = (a < b)"
| "float_lt a NegInf = False"
| "float_lt PosInf b = False"
| "float_lt NegInf b = True"
| "float_lt a PosInf = True"

text \<open>Python's \<open>a < b\<close> and \<open>a > b\<close> on numbers.\<close>

definition num_lt :: "pynum \<Rightarrow> pynum \<Rightarrow> bool" where
  "num_lt a b = float_lt (as_float a) (as_float b)"

definition num_gt :: "pynum \<Rightarrow> pynum \<Rightarrow> bool" where
  "num_gt a b = float_lt (as_float b) (as_float a)"

text \<open>Python's \<open>a == b\<close> on numbers (NaN equals nothing).\<close>

fun float_eq :: "pyfloat \<Rightarrow> pyfloat \<Rightarrow> bool" where
  "float_eq NaN b = False"
| "float_eq a NaN = False"
| "float_eq a b = (a = b)"

definition num_eq :: "pynum \<Rightarrow> pynum \<Rightarrow> bool" where
  "num_eq a b = float_eq (as_float a) (as_float b)"

text \<open>Python's \<open>a <= b\<close> on numbers.\<close>

definition num_le :: "pynum \<Rightarrow> pynum \<Rightarrow> bool" where
  "num_le a b = (num_lt a b \<or> num_eq a b)"

subsection \<open>Exceptions, values, and the outside world\<close>

datatype log_level = DEBUG | INFO | ERROR

type_synonym init_log = "(log_level \<times> string) list"

text \<open>The exception a \<open>ConfigLoadFailure\<close> keeps as its \<open>reason\<close>, with its \<open>str()\<close>.\<close>

datatype cause = ParsingError string | OSError string

datatype exn =
    ValueError
  | TypeError
  | OptionParseFailure string
  | KeyError string
  | AssertionError
  | ConfigLoadFailure init_log "cause option"
  | OtherException string

text \<open>The payload of a \<open>TimecodeValue\<close>: \<open>Union[int, float, str]\<close>.\<close>

datatype timecode = TcFrames int | TcSeconds pyfloat | TcText string

text \<open>\<open>ContentDetector.Components\<close>, a named tuple of four floats.\<close>

type_synonym components = "pyfloat \<times> pyfloat \<times> pyfloat \<times> pyfloat"

text \<open>
  The four \<open>ValidatedValue\<close> classes, each with its private fields. A \<open>KernelSizeValue\<close>
  holds \<open>None\<close> for the automatic size.
\<close>

datatype validated_value =
    TimecodeValue timecode
  | RangeValue pynum pynum pynum
  | ScoreWeightsValue components
  | KernelSizeValue "int option"

datatype enum_class = FlashFilter_Mode | Interpolation | TimecodeFormat

text \<open>A configuration value, tagged with its Python type.\<close>

datatype pyvalue =
    PyNone
  | PyBool bool
  | PyNumber pynum
  | PyStr string
  | PyEnum enum_class string
  | PyTuple components
  | PyValidated validated_value

text \<open>
  A parsed configuration file, as \<open>ConfigParser\<close> hands it over: the sections in file
  order, each with its (option, raw value) pairs. The \<open>DEFAULT\<close> section and value
  interpolation of \<open>ConfigParser\<close> are not modelled.
\<close>

type_synonym config = "(string \<times> (string \<times> string) list) list"

datatype read_result =
    ReadOSError string
  | ReadParsingError string
  | ReadOtherError string
  | ReadOk config

record env =
  str_upper :: "string \<Rightarrow> string"
  str_lower :: "string \<Rightarrow> string"
  int_of_str :: "string \<Rightarrow> int option"
  float_of_str :: "string \<Rightarrow> pyfloat option"
  str_of_num :: "pynum \<Rightarrow> string"
  FrameTimecode_ok :: "timecode \<Rightarrow> bool"
  FlashFilter_Mode_names :: "string list"
  Interpolation_names :: "string list"
  DEFAULT_COMPONENT_WEIGHTS :: components
  DEFAULT_FFMPEG_ARGS :: string
  CONFIG_FILE_PATH :: string
  path_exists :: "string \<Rightarrow> bool"
  read_config :: "string \<Rightarrow> read_result"

text \<open>
  \<open>str_upper\<close> and \<open>str_lower\<close> are \<open>str.upper()\<close> and \<open>str.lower()\<close>.
  \<open>int_of_str\<close> and \<open>float_of_str\<close> are \<open>int(s)\<close> and \<open>float(s)\<close>, \<open>None\<close> for
  \<open>ValueError\<close>. \<open>FrameTimecode_ok v\<close> says that \<open>FrameTimecode(timecode=v, fps=100.0)\<close>
  constructs; when it does not, it raises \<open>ValueError\<close>. \<open>read_config path\<close> is the
  outcome of opening and reading the file and of \<open>ConfigParser.read_string\<close>.
\<close>

subsection \<open>The validated value classes\<close>

text \<open>\<open>TimecodeValue.__init__\<close> and \<open>TimecodeValue.from_config\<close>\<close>

definition TimecodeValue_init :: "env \<Rightarrow> timecode \<Rightarrow> exn + validated_value" where
  "TimecodeValue_init e v =
     (if FrameTimecode_ok e v then Inr (TimecodeValue v) else Inl ValueError)"

definition TimecodeValue_from_config :: "env \<Rightarrow> string \<Rightarrow> exn + validated_value" where
  "TimecodeValue_from_config e config_value =
     (case TimecodeValue_init e (TcText config_value) of
        Inl ValueError \<Rightarrow> Inl (OptionParseFailure
          ''Timecodes must be in seconds (100.0), frames (100), or HH:MM:SS.'')
      | Inl ex \<Rightarrow> Inl ex
      | Inr v \<Rightarrow> Inr v)"

text \<open>\<open>RangeValue.__init__\<close>\<close>

definition RangeValue_init :: "pynum \<Rightarrow> pynum \<Rightarrow> pynum \<Rightarrow> exn + validated_value" where
  "RangeValue_init v min_val max_val =
     (if num_lt v min_val \<or> num_gt v max_val then Inl ValueError
      else Inr (RangeValue v min_val max_val))"

text \<open>
  \<open>RangeValue.from_config\<close>; the default is given by its three fields. The reader is
  chosen by \<open>isinstance(default.value, int)\<close>; a \<open>ValueError\<close> of the reader or of the
  constructor becomes the \<open>OptionParseFailure\<close>.
\<close>

definition RangeValue_reader :: "env \<Rightarrow> pynum \<Rightarrow> string \<Rightarrow> pynum option" where
  "RangeValue_reader e default_value config_value =
     (case default_value of
        PyInt _ \<Rightarrow> map_option PyInt (int_of_str e config_value)
      | PyFloat _ \<Rightarrow> map_option PyFloat (float_of_str e config_value))"

definition RangeValue_failure :: "env \<Rightarrow> pynum \<Rightarrow> pynum \<Rightarrow> exn" where
  "RangeValue_failure e min_val max_val =
     OptionParseFailure (''Value must be between '' @ str_of_num e min_val @ '' and ''
       @ str_of_num e max_val @ ''.'')"

definition RangeValue_from_config ::
  "env \<Rightarrow> string \<Rightarrow> pynum \<Rightarrow> pynum \<Rightarrow> pynum \<Rightarrow> exn + validated_value" where
  "RangeValue_from_config e config_value default_value min_val max_val =
     (case RangeValue_reader e default_value config_value of
        None \<Rightarrow> Inl (RangeValue_failure e min_val max_val)
      | Some v \<Rightarrow>
          (case RangeValue_init v min_val max_val of
             Inl ValueError \<Rightarrow> Inl (RangeValue_failure e min_val max_val)
           | Inl ex \<Rightarrow> Inl ex
           | Inr r \<Rightarrow> Inr r))"

text \<open>
  \<open>ScoreWeightsValue.__init__\<close> on text: the characters of \<open>_IGNORE_CHARS\<close> become
  spaces, the text is split at whitespace, and four numbers are read.
\<close>

definition IGNORE_CHARS :: "char list" where
  "IGNORE_CHARS = [CHR '','', CHR ''/'', CHR ''('', CHR '')'']"

definition translate_ignored :: "string \<Rightarrow> string" where
  "translate_ignored s = map (\<lambda>c. if c \<in> set IGNORE_CHARS then CHR '' '' else c) s"

definition ScoreWeightsValue_init :: "env \<Rightarrow> string \<Rightarrow> exn + validated_value" where
  "ScoreWeightsValue_init e v =
     (let values = split (translate_ignored v) in
      if length values \<noteq> 4 then Inl ValueError
      else (case map (float_of_str e) values of
              [Some a, Some b, Some c, Some d] \<Rightarrow> Inr (ScoreWeightsValue (a, b, c, d))
            | _ \<Rightarrow> Inl ValueError))"

definition ScoreWeightsValue_from_config :: "env \<Rightarrow> string \<Rightarrow> exn + validated_value" where
  "ScoreWeightsValue_from_config e config_value =
     (case ScoreWeightsValue_init e config_value of
        Inl ValueError \<Rightarrow> Inl (OptionParseFailure
          (''Score weights must be specified as four numbers in the form (H,S,L,E),''
           @ '' e.g. (0.9, 0.2, 2.0, 0.5). Commas/brackets/slashes are ignored.''))
      | Inl ex \<Rightarrow> Inl ex
      | Inr v \<Rightarrow> Inr v)"

text \<open>\<open>KernelSizeValue.__init__\<close> and \<open>KernelSizeValue.from_config\<close>\<close>

definition KernelSizeValue_init :: "int \<Rightarrow> exn + validated_value" where
  "KernelSizeValue_init v =
     (if v = - 1 then Inr (KernelSizeValue None)
      else if v < 0 then Inl ValueError
      else if v mod 2 = 0 then Inl ValueError
      else Inr (KernelSizeValue (Some v)))"

definition KernelSizeValue_failure :: exn where
  "KernelSizeValue_failure = OptionParseFailure
     ''Value must be an odd integer greater than 1, or set to -1 for auto kernel size.''"

definition KernelSizeValue_from_config :: "env \<Rightarrow> string \<Rightarrow> exn + validated_value" where
  "KernelSizeValue_from_config e config_value =
     (case int_of_str e config_value of
        None \<Rightarrow> Inl KernelSizeValue_failure
      | Some v \<Rightarrow>
          (case KernelSizeValue_init v of
             Inl ValueError \<Rightarrow> Inl KernelSizeValue_failure
           | Inl ex \<Rightarrow> Inl ex
           | Inr r \<Rightarrow> Inr r))"

text \<open>The \<open>value\<close> property of each class.\<close>

fun value_property :: "validated_value \<Rightarrow> pyvalue" where
  "value_property (TimecodeValue (TcFrames n)) = PyNumber (PyInt n)"
| "value_property (TimecodeValue (TcSeconds s)) = PyNumber (PyFloat s)"
| "value_property (TimecodeValue (TcText t)) = PyStr t"
| "value_property (RangeValue v min_val max_val) = PyNumber v"
| "value_property (ScoreWeightsValue w) = PyTuple w"
| "value_property (KernelSizeValue None) = PyNone"
| "value_property (KernelSizeValue (Some n)) = PyNumber (PyInt n)"

text \<open>
  \<open>option_type.from_config(config_value=config_value, default=default)\<close>: the static
  method of the default's class.
\<close>

fun from_config :: "env \<Rightarrow> string \<Rightarrow> validated_value \<Rightarrow> exn + validated_value" where
  "from_config e config_value (TimecodeValue d) = TimecodeValue_from_config e config_value"
| "from_config e config_value (RangeValue d min_val max_val) =
     RangeValue_from_config e config_value d min_val max_val"
| "from_config e config_value (ScoreWeightsValue d) =
     ScoreWeightsValue_from_config e config_value"
| "from_config e config_value (KernelSizeValue d) = KernelSizeValue_from_config e config_value"

subsection \<open>The schema: \<open>CONFIG_MAP\<close> and \<open>CHOICE_MAP\<close>\<close>

type_synonym options = "(string \<times> pyvalue) list"

type_synonym config_dict = "(string \<times> options) list"

definition PYAV_THREADING_MODES :: "string list" where
  "PYAV_THREADING_MODES = [''NONE'', ''SLICE'', ''FRAME'', ''AUTO'']"

text \<open>
  The member names of an enumeration, in definition order. \<open>TimecodeFormat\<close> is declared
  in the module; the other two classes are imported.
\<close>

fun enum_names :: "env \<Rightarrow> enum_class \<Rightarrow> string list" where
  "enum_names e TimecodeFormat = [''FRAMES'', ''TIMECODE'', ''SECONDS'']"
| "enum_names e FlashFilter_Mode = FlashFilter_Mode_names e"
| "enum_names e Interpolation = Interpolation_names e"

definition float_value :: "rat \<Rightarrow> pyvalue" where
  "float_value r = PyNumber (PyFloat (Finite r))"

definition int_value :: "int \<Rightarrow> pyvalue" where
  "int_value i = PyNumber (PyInt i)"

definition float_range :: "rat \<Rightarrow> rat \<Rightarrow> rat \<Rightarrow> pyvalue" where
  "float_range v lo hi =
     PyValidated (RangeValue (PyFloat (Finite v)) (PyFloat (Finite lo)) (PyFloat (Finite hi)))"

definition int_range :: "int \<Rightarrow> int \<Rightarrow> int \<Rightarrow> pyvalue" where
  "int_range v lo hi = PyValidated (RangeValue (PyInt v) (PyInt lo) (PyInt hi))"

definition PLACEHOLDER :: int where
  "PLACEHOLDER = 0"

text \<open>
  \<open>CONFIG_MAP\<close>, with each default as its constructor leaves it: \<open>KernelSizeValue(-1)\<close>
  holds \<open>None\<close>, and a decimal literal stands for the float it denotes.
\<close>

definition CONFIG_MAP :: "env \<Rightarrow> config_dict" where
  "CONFIG_MAP e = [
    (''backend-opencv'', [
      (''max-decode-attempts'', int_value 5)]),
    (''backend-pyav'', [
      (''suppress-output'', PyBool False),
      (''threading-mode'', PyStr ''auto'')]),
    (''detect-adaptive'', [
      (''frame-window'', int_value 2),
      (''kernel-size'', PyValidated (KernelSizeValue None)),
      (''luma-only'', PyBool False),
      (''min-content-val'', float_range 15 0 255),
      (''min-delta-hsv'', float_range 15 0 255),
      (''min-scene-len'', PyValidated (TimecodeValue (TcFrames 0))),
      (''threshold'', float_range 3 0 255),
      (''weights'', PyValidated (ScoreWeightsValue (DEFAULT_COMPONENT_WEIGHTS e)))]),
    (''detect-content'', [
      (''filter-mode'', PyEnum FlashFilter_Mode ''MERGE''),
      (''kernel-size'', PyValidated (KernelSizeValue None)),
      (''luma-only'', PyBool False),
      (''min-scene-len'', PyValidated (TimecodeValue (TcFrames 0))),
      (''threshold'', float_range 27 0 255),
      (''weights'', PyValidated (ScoreWeightsValue (DEFAULT_COMPONENT_WEIGHTS e)))]),
    (''detect-hash'', [
      (''min-scene-len'', PyValidated (TimecodeValue (TcFrames 0))),
      (''lowpass'', int_range 2 1 256),
      (''size'', int_range 16 1 256),
      (''threshold'', float_range (395 / 1000) 0 1)]),
    (''detect-hist'', [
      (''min-scene-len'', PyValidated (TimecodeValue (TcFrames 0))),
      (''threshold'', float_range (5 / 100) 0 1),
      (''bins'', int_range 256 1 256)]),
    (''detect-threshold'', [
      (''add-last-scene'', PyBool True),
      (''fade-bias'', PyValidated (RangeValue (PyInt 0) (PyFloat (Finite (- 100)))
                                    (PyFloat (Finite 100)))),
      (''min-scene-len'', PyValidated (TimecodeValue (TcFrames 0))),
      (''threshold'', float_range 12 0 255)]),
    (''load-scenes'', [
      (''start-col-name'', PyStr ''Start Frame'')]),
    (''export-html'', [
      (''filename'', PyStr ''$VIDEO_NAME-Scenes.html''),
      (''image-height'', int_value 0),
      (''image-width'', int_value 0),
      (''no-images'', PyBool False),
      (''show'', PyBool False)]),
    (''list-scenes'', [
      (''cut-format'', PyEnum TimecodeFormat ''TIMECODE''),
      (''display-cuts'', PyBool True),
      (''display-scenes'', PyBool True),
      (''filename'', PyStr ''$VIDEO_NAME-Scenes.csv''),
      (''output'', PyNone),
      (''no-output-file'', PyBool False),
      (''quiet'', PyBool False),
      (''skip-cuts'', PyBool False)]),
    (''global'', [
      (''backend'', PyStr ''opencv''),
      (''default-detector'', PyStr ''detect-adaptive''),
      (''downscale'', int_value 0),
      (''downscale-method'', PyEnum Interpolation ''LINEAR''),
      (''drop-short-scenes'', PyBool False),
      (''frame-skip'', int_value 0),
      (''merge-last-scene'', PyBool False),
      (''min-scene-len'', PyValidated (TimecodeValue (TcText ''0.6s''))),
      (''output'', PyNone),
      (''verbosity'', PyStr ''info'')]),
    (''save-images'', [
      (''compression'', int_range 3 0 9),
      (''filename'', PyStr ''$VIDEO_NAME-Scene-$SCENE_NUMBER-$IMAGE_NUMBER''),
      (''format'', PyStr ''jpeg''),
      (''frame-margin'', int_value 1),
      (''height'', int_value 0),
      (''num-images'', int_value 3),
      (''output'', PyNone),
      (''quality'', int_range PLACEHOLDER 0 100),
      (''scale'', float_value 1),
      (''scale-method'', PyEnum Interpolation ''LINEAR''),
      (''width'', int_value 0)]),
    (''save-qp'', [
      (''disable-shift'', PyBool False),
      (''filename'', PyStr ''$VIDEO_NAME.qp''),
      (''output'', PyNone)]),
    (''split-video'', [
      (''args'', PyStr (DEFAULT_FFMPEG_ARGS e)),
      (''copy'', PyBool False),
      (''filename'', PyStr ''$VIDEO_NAME-Scene-$SCENE_NUMBER''),
      (''high-quality'', PyBool False),
      (''mkvmerge'', PyBool False),
      (''output'', PyNone),
      (''preset'', PyStr ''veryfast''),
      (''quiet'', PyBool False),
      (''rate-factor'', int_range 22 0 100)])]"

definition CHOICE_MAP :: "env \<Rightarrow> (string \<times> (string \<times> string list) list) list" where
  "CHOICE_MAP e = [
    (''backend-pyav'', [
      (''threading_mode'', map (str_lower e) PYAV_THREADING_MODES)]),
    (''detect-content'', [
      (''filter-mode'', map (str_lower e) (enum_names e FlashFilter_Mode))]),
    (''global'', [
      (''backend'', [''opencv'', ''pyav'', ''moviepy'']),
      (''default-detector'', [''detect-adaptive'', ''detect-content'', ''detect-threshold'',
         ''detect-hash'', ''detect-hist'']),
      (''downscale-method'', map (str_lower e) (enum_names e Interpolation)),
      (''verbosity'', [''debug'', ''info'', ''warning'', ''error'', ''none''])]),
    (''list-scenes'', [
      (''cut-format'', map (str_lower e) (enum_names e TimecodeFormat))]),
    (''save-images'', [
      (''format'', [''jpeg'', ''png'', ''webp'']),
      (''scale-method'', map (str_lower e) (enum_names e Interpolation))]),
    (''split-video'', [
      (''preset'', [''ultrafast'', ''superfast'', ''veryfast'', ''faster'', ''fast'',
         ''medium'', ''slow'', ''slower'', ''veryslow''])])]"

text \<open>\<open>d[k1][k2]\<close> when both keys are present.\<close>

definition lookup2 :: "(string \<times> (string \<times> 'a) list) list \<Rightarrow> string \<Rightarrow> string \<Rightarrow> 'a option" where
  "lookup2 d k1 k2 = (case map_of d k1 of None \<Rightarrow> None | Some inner \<Rightarrow> map_of inner k2)"

subsection \<open>The structural validator\<close>

definition unsupported_section :: "string \<Rightarrow> string" where
  "unsupported_section section = ''Unsupported config section: ['' @ section @ '']''"

definition unsupported_option :: "string \<Rightarrow> string \<Rightarrow> string" where
  "unsupported_option section option_name =
     ''Unsupported config option in ['' @ section @ '']: '' @ option_name"

text \<open>The inner loop of \<open>_validate_structure\<close>, over \<open>config.items(section)\<close>.\<close>

fun validate_items :: "options \<Rightarrow> string \<Rightarrow> (string \<times> string) list \<Rightarrow> string list \<Rightarrow> string list"
  where
  "validate_items declared section [] errors = errors"
| "validate_items declared section ((option_name, raw) # rest) errors =
     validate_items declared section rest
       (if map_of declared option_name = None
        then errors @ [unsupported_option section option_name] else errors)"

text \<open>The outer loop, over \<open>config.sections()\<close>.\<close>

fun validate_sections :: "config_dict \<Rightarrow> config \<Rightarrow> string list \<Rightarrow> string list" where
  "validate_sections schema [] errors = errors"
| "validate_sections schema ((section, its_items) # rest) errors =
     (case map_of schema section of
        None \<Rightarrow> validate_sections schema rest (errors @ [unsupported_section section])
      | Some declared \<Rightarrow>
          validate_sections schema rest (validate_items declared section its_items errors))"

definition validate_structure :: "env \<Rightarrow> config \<Rightarrow> string list" where
  "validate_structure e config = validate_sections (CONFIG_MAP e) config []"

subsection \<open>The value parser\<close>

text \<open>\<open>ConfigParser.getboolean\<close>: the raw value, lowercased, looked up in \<open>BOOLEAN_STATES\<close>.\<close>

definition getboolean :: "env \<Rightarrow> string \<Rightarrow> bool option" where
  "getboolean e raw =
     (if str_lower e raw \<in> set [''1'', ''yes'', ''true'', ''on''] then Some True
      else if str_lower e raw \<in> set [''0'', ''no'', ''false'', ''off''] then Some False
      else None)"

definition invalid_type :: "string \<Rightarrow> string \<Rightarrow> string \<Rightarrow> string \<Rightarrow> string" where
  "invalid_type command option raw value_type =
     ''Invalid ['' @ command @ ''] value for '' @ option @ '': '' @ raw
       @ '' is not a valid '' @ value_type @ ''.''"

definition invalid_choice :: "string \<Rightarrow> string \<Rightarrow> string \<Rightarrow> string list \<Rightarrow> string" where
  "invalid_choice command option raw choices =
     ''Invalid ['' @ command @ ''] value for '' @ option @ '': '' @ raw
       @ ''. Must be one of: '' @ join '', '' choices @ ''.''"

definition invalid_validated :: "string \<Rightarrow> string \<Rightarrow> string \<Rightarrow> string \<Rightarrow> string" where
  "invalid_validated command option raw explanation =
     ''Invalid ['' @ command @ ''] value for '' @ option @ '':'' @ [CHR 0x0A] @ ''  '' @ raw
       @ [CHR 0x0A] @ explanation"

text \<open>
  \<open>cls[name]\<close> on an enumeration class: \<open>EnumType.__getitem__\<close> reads the member map, and a
  name that is no member raises \<open>KeyError\<close>.
\<close>

definition enum_getitem :: "env \<Rightarrow> enum_class \<Rightarrow> string \<Rightarrow> exn + pyvalue" where
  "enum_getitem e cls name =
     (if name \<in> set (enum_names e cls) then Inr (PyEnum cls name) else Inl (KeyError name))"

text \<open>What one option of the file comes to: a value for \<open>out_map\<close>, or a line for \<open>errors\<close>.\<close>

datatype outcome = Stored pyvalue | Rejected string

text \<open>
  The body of the inner loop of \<open>_parse_config\<close> for an option that the file sets to
  \<open>raw\<close>, by the type of its default. The first three cases are the \<open>try\<close> block whose
  \<open>ValueError\<close> is caught. In the enumeration case only \<open>TypeError\<close> is caught by the inner
  handler and only \<open>ValueError\<close> by the outer one; any other exception leaves the
  function.
\<close>

fun parse_value :: "env \<Rightarrow> string \<Rightarrow> string \<Rightarrow> pyvalue \<Rightarrow> string \<Rightarrow> exn + outcome" where
  "parse_value e command option (PyBool d) raw =
     (case getboolean e raw of
        Some b \<Rightarrow> Inr (Stored (PyBool b))
      | None \<Rightarrow> Inr (Rejected (invalid_type command option raw ''yes/no value'')))"
| "parse_value e command option (PyNumber (PyInt d)) raw =
     (case int_of_str e raw of
        Some n \<Rightarrow> Inr (Stored (PyNumber (PyInt n)))
      | None \<Rightarrow> Inr (Rejected (invalid_type command option raw ''integer'')))"
| "parse_value e command option (PyNumber (PyFloat d)) raw =
     (case float_of_str e raw of
        Some x \<Rightarrow> Inr (Stored (PyNumber (PyFloat x)))
      | None \<Rightarrow> Inr (Rejected (invalid_type command option raw ''number'')))"
| "parse_value e command option (PyEnum cls d) raw =
     (case enum_getitem e cls (str_upper e (strip (replace (CHR 0x0A) '' '' raw))) of
        Inr parsed \<Rightarrow> Inr (Stored parsed)
      | Inl TypeError \<Rightarrow>
          (case lookup2 (CHOICE_MAP e) command option of
             Some choices \<Rightarrow> Inr (Rejected (invalid_choice command option raw choices))
           | None \<Rightarrow> Inl (KeyError option))
      | Inl ValueError \<Rightarrow> Inr (Rejected (invalid_type command option raw ''None''))
      | Inl ex \<Rightarrow> Inl ex)"
| "parse_value e command option (PyValidated d) raw =
     (case from_config e raw d of
        Inr v \<Rightarrow> Inr (Stored (PyValidated v))
      | Inl (OptionParseFailure explanation) \<Rightarrow>
          Inr (Rejected (invalid_validated command option raw explanation))
      | Inl ex \<Rightarrow> Inl ex)"
| "parse_value e command option d raw =
     (let config_value = strip (replace (CHR 0x0A) '' '' raw) in
      case lookup2 (CHOICE_MAP e) command option of
        Some choices \<Rightarrow>
          if str_lower e config_value \<notin> set choices
          then Inr (Rejected (invalid_choice command option raw choices))
          else Inr (Stored (PyStr config_value))
      | None \<Rightarrow> Inr (Stored (PyStr config_value)))"

text \<open>
  The inner loop, over the options of one schema section: \<open>out\<close> is \<open>out_map[command]\<close>.
  An option the file does not set is passed over.
\<close>

fun parse_options ::
  "env \<Rightarrow> config \<Rightarrow> string \<Rightarrow> options \<Rightarrow> options \<times> string list \<Rightarrow> exn + options \<times> string list"
  where
  "parse_options e config command [] state = Inr state"
| "parse_options e config command ((option, dflt) # rest) (out, errors) =
     (case lookup2 config command option of
        None \<Rightarrow> parse_options e config command rest (out, errors)
      | Some raw \<Rightarrow>
          (case parse_value e command option dflt raw of
             Inl ex \<Rightarrow> Inl ex
           | Inr (Stored v) \<Rightarrow>
               parse_options e config command rest (AList.update option v out, errors)
           | Inr (Rejected line) \<Rightarrow>
               parse_options e config command rest (out, errors @ [line])))"

text \<open>The outer loop, over the sections of the schema.\<close>

fun parse_sections ::
  "env \<Rightarrow> config \<Rightarrow> config_dict \<Rightarrow> config_dict \<times> string list
     \<Rightarrow> exn + config_dict \<times> string list"
  where
  "parse_sections e config [] state = Inr state"
| "parse_sections e config ((command, declared) # rest) (out_map, errors) =
     (case parse_options e config command declared ([], errors) of
        Inl ex \<Rightarrow> Inl ex
      | Inr (out, errors') \<Rightarrow>
          parse_sections e config rest (AList.update command out out_map, errors'))"

definition parse_config :: "env \<Rightarrow> config \<Rightarrow> exn + config_dict \<times> string list" where
  "parse_config e config = parse_sections e config (CONFIG_MAP e) ([], [])"

subsection \<open>The registry\<close>

record registry =
  p_config :: config_dict
  p_init_log :: init_log
  p_initialized :: bool

definition config_dict :: "registry \<Rightarrow> config_dict" where
  "config_dict self = p_config self"

definition initialized :: "registry \<Rightarrow> bool" where
  "initialized self = p_initialized self"

definition get_init_log :: "registry \<Rightarrow> init_log \<times> registry" where
  "get_init_log self = (p_init_log self, self\<lparr>p_init_log := []\<rparr>)"

definition append_log :: "registry \<Rightarrow> log_level \<Rightarrow> string \<Rightarrow> registry" where
  "append_log self log_level log_str = self\<lparr>p_init_log := p_init_log self @ [(log_level, log_str)]\<rparr>"

text \<open>
  \<open>_load_from_disk\<close>, in three parts. Each returns the exception raised, if any, beside
  the registry as the call leaves it. First the end of the method, from the validation
  of the parsed file on.
\<close>

definition raise_if_errors :: "registry \<Rightarrow> string list \<Rightarrow> exn option \<times> registry" where
  "raise_if_errors self errors =
     (if errors \<noteq> [] then
        (let self' = self\<lparr>p_init_log := p_init_log self @ map (Pair ERROR) errors\<rparr>
         in (Some (ConfigLoadFailure (p_init_log self') None), self'))
      else (None, self))"

definition validate_and_parse :: "env \<Rightarrow> config \<Rightarrow> registry \<Rightarrow> exn option \<times> registry" where
  "validate_and_parse e config self =
     (let errors = validate_structure e config in
      if errors = [] then
        (case parse_config e config of
           Inl ex \<Rightarrow> (Some ex, self)
         | Inr (out_map, errors') \<Rightarrow> raise_if_errors (self\<lparr>p_config := out_map\<rparr>) errors')
      else raise_if_errors self errors)"

text \<open>The \<open>try\<close> block that opens, reads and tokenizes the file at \<open>path\<close>.\<close>

definition load_file :: "env \<Rightarrow> string \<Rightarrow> registry \<Rightarrow> exn option \<times> registry" where
  "load_file e path self =
     (case read_config e path of
        ReadParsingError msg \<Rightarrow>
          (Some (ConfigLoadFailure (p_init_log self) (Some (ParsingError msg))), self)
      | ReadOSError msg \<Rightarrow>
          (Some (ConfigLoadFailure (p_init_log self) (Some (OSError msg))), self)
      | ReadOtherError msg \<Rightarrow> (Some (OtherException msg), self)
      | ReadOk config \<Rightarrow> validate_and_parse e config self)"

text \<open>The branch for a missing or empty \<open>path\<close>, which is falsy in \<open>if path:\<close>.\<close>

definition load_user_config :: "env \<Rightarrow> registry \<Rightarrow> exn option \<times> registry" where
  "load_user_config e self =
     (if \<not> path_exists e (CONFIG_FILE_PATH e)
      then (None, append_log self DEBUG ''User config file not found.'')
      else load_file e (CONFIG_FILE_PATH e)
             (append_log self INFO (''Loading user config file:'' @ [CHR 0x0A] @ ''  ''
                @ CONFIG_FILE_PATH e)))"

definition load_from_disk :: "env \<Rightarrow> string option \<Rightarrow> registry \<Rightarrow> exn option \<times> registry" where
  "load_from_disk e path self =
     (case path of
        None \<Rightarrow> load_user_config e self
      | Some p \<Rightarrow>
          if p = [] then load_user_config e self
          else
            (let self1 = append_log self INFO (''Loading config from file:'' @ [CHR 0x0A] @ ''  '' @ p)
             in if \<not> path_exists e p then
                  (let self2 = append_log self1 ERROR (''File not found: '' @ p)
                   in (Some (ConfigLoadFailure (p_init_log self2) None), self2))
                else load_file e p self1))"

text \<open>
  \<open>ConfigRegistry.__init__\<close>: the object when the constructor returns, or the exception
  that leaves it. Only \<open>ConfigLoadFailure\<close> is caught.
\<close>

definition reason_entry :: "cause \<Rightarrow> log_level \<times> string" where
  "reason_entry reason =
     (ERROR, ''Error: '' @ replace (CHR 0x09) ''  ''
        (case reason of ParsingError msg \<Rightarrow> msg | OSError msg \<Rightarrow> msg))"

definition ConfigRegistry :: "env \<Rightarrow> string option \<Rightarrow> bool \<Rightarrow> exn + registry" where
  "ConfigRegistry e path throw_exception =
     (let self = \<lparr>p_config = [], p_init_log = [], p_initialized = False\<rparr> in
      case load_from_disk e path self of
        (None, self') \<Rightarrow> Inr (self'\<lparr>p_initialized := True\<rparr>)
      | (Some (ConfigLoadFailure init_log reason), self') \<Rightarrow>
          if throw_exception then Inl (ConfigLoadFailure init_log reason)
          else Inr (self'\<lparr>p_init_log :=
                       init_log @ (case reason of None \<Rightarrow> [] | Some r \<Rightarrow> [reason_entry r]),
                     p_initialized := False\<rparr>)
      | (Some ex, self') \<Rightarrow> Inl ex)"

text \<open>\<open>is_default\<close> and \<open>get_value\<close>; an absent override is \<open>PyNone\<close>.\<close>

definition is_default :: "registry \<Rightarrow> string \<Rightarrow> string \<Rightarrow> bool" where
  "is_default self command option = (lookup2 (p_config self) command option = None)"

definition get_value :: "env \<Rightarrow> registry \<Rightarrow> string \<Rightarrow> string \<Rightarrow> pyvalue \<Rightarrow> exn + pyvalue" where
  "get_value e self command option override =
     (case lookup2 (CONFIG_MAP e) command option of
        None \<Rightarrow> Inl AssertionError
      | Some dflt \<Rightarrow>
          if override \<noteq> PyNone then Inr override
          else
            (let v = (case lookup2 (p_config self) command option of
                        Some set_value \<Rightarrow> set_value
                      | None \<Rightarrow> dflt)
             in case v of
                  PyValidated validated \<Rightarrow> Inr (value_property validated)
                | _ \<Rightarrow> Inr v))"

subsection \<open>A sample environment\<close>

text \<open>
  The theorems below hold for every environment. To evaluate the model on concrete
  inputs, here is one: readers for decimal literals, the enumerations and constants of
  the imported modules, and a file system with at most one file.
\<close>

text \<open>
  The case mappings of the sample environment: those of \<open>str.upper()\<close> and \<open>str.lower()\<close>
  on ASCII text, which is all that the sample files hold.
\<close>

definition lower_letters :: string where
  "lower_letters = ''abcdefghijklmnopqrstuvwxyz''"

definition upper_letters :: string where
  "upper_letters = ''ABCDEFGHIJKLMNOPQRSTUVWXYZ''"

definition ascii_upper :: "string \<Rightarrow> string" where
  "ascii_upper s = map (\<lambda>c. case map_of (zip lower_letters upper_letters) c of
                         Some u \<Rightarrow> u | None \<Rightarrow> c) s"

definition ascii_lower :: "string \<Rightarrow> string" where
  "ascii_lower s = map (\<lambda>c. case map_of (zip upper_letters lower_letters) c of
                         Some l \<Rightarrow> l | None \<Rightarrow> c) s"

definition digit_value :: "char \<Rightarrow> nat option" where
  "digit_value c = map_of (zip ''0123456789'' [0, 1, 2, 3, 4, 5, 6, 7, 8, 9]) c"

text \<open>
  Digits with single underscores between them, as \<open>int()\<close> and \<open>float()\<close> accept;
  \<open>after_digit\<close> says that the previous character was a digit.
\<close>

fun read_digits :: "bool \<Rightarrow> nat \<Rightarrow> string \<Rightarrow> nat option" where
  "read_digits after_digit acc [] = (if after_digit then Some acc else None)"
| "read_digits after_digit acc (c # cs) =
     (case digit_value c of
        Some d \<Rightarrow> read_digits True (10 * acc + d) cs
      | None \<Rightarrow> if c = CHR ''_'' \<and> after_digit then read_digits False acc cs else None)"

definition split_sign :: "string \<Rightarrow> bool \<times> string" where
  "split_sign s =
     (case s of
        [] \<Rightarrow> (False, s)
      | c # cs \<Rightarrow> if c = CHR ''-'' then (True, cs) else if c = CHR ''+'' then (False, cs)
                 else (False, s))"

definition decimal_int :: "string \<Rightarrow> int option" where
  "decimal_int s =
     (case split_sign (strip s) of
        (negative, body) \<Rightarrow>
          map_option (\<lambda>n. if negative then - int n else int n) (read_digits False 0 body))"

text \<open>
  A decimal literal with a fraction, or \<open>inf\<close>, \<open>infinity\<close>, \<open>nan\<close>. The value is the exact
  one: the rounding of \<open>float()\<close> to binary64 and exponents are left out, so this reader
  agrees with \<open>float()\<close> on the short literals it is used on below.
\<close>

definition decimal_float :: "string \<Rightarrow> pyfloat option" where
  "decimal_float s =
     (case split_sign (ascii_lower (strip s)) of
        (negative, body) \<Rightarrow>
          if body = ''inf'' \<or> body = ''infinity'' then Some (if negative then NegInf else PosInf)
          else if body = ''nan'' then Some NaN
          else
            (let whole = takeWhile (\<lambda>c. c \<noteq> CHR ''.'') body;
                 fraction = drop 1 (dropWhile (\<lambda>c. c \<noteq> CHR ''.'') body);
                 scale = length (filter (\<lambda>c. c \<noteq> CHR ''_'') fraction)
             in if whole = [] \<and> fraction = [] then None
                else
                  (case (if whole = [] then Some 0 else read_digits False 0 whole,
                         if fraction = [] then Some 0 else read_digits False 0 fraction) of
                     (Some w, Some f) \<Rightarrow>
                       (let magnitude = of_nat w + of_nat f / (10 ^ scale)
                        in Some (Finite (if negative then - magnitude else magnitude)))
                   | _ \<Rightarrow> None)))"

text \<open>\<open>str()\<close> of an \<open>int\<close>, and of a \<open>float\<close> whose value is a whole number.\<close>

fun decimal_digits :: "nat \<Rightarrow> string" where
  "decimal_digits n =
     (if n < 10 then [''0123456789'' ! n]
      else decimal_digits (n div 10) @ [''0123456789'' ! (n mod 10)])"

definition str_int :: "int \<Rightarrow> string" where
  "str_int i = (if i < 0 then ''-'' @ decimal_digits (nat (- i)) else decimal_digits (nat i))"

fun str_num :: "pynum \<Rightarrow> string" where
  "str_num (PyInt i) = str_int i"
| "str_num (PyFloat (Finite r)) =
     (if of_int \<lfloor>r\<rfloor> = r then str_int \<lfloor>r\<rfloor> @ ''.0'' else ''<float>'')"
| "str_num (PyFloat PosInf) = ''inf''"
| "str_num (PyFloat NegInf) = ''-inf''"
| "str_num (PyFloat NaN) = ''nan''"

text \<open>
  Modelled from the spec: \<open>FrameTimecode\<close> is not among the sources. A timecode is a
  frame count, a seconds quantity, or text; the sample accepts the counts and quantities
  that are not negative, and text that reads as one of them, with or without a final
  \<open>s\<close>.
\<close>

fun sample_timecode_ok :: "timecode \<Rightarrow> bool" where
  "sample_timecode_ok (TcFrames n) = (0 \<le> n)"
| "sample_timecode_ok (TcSeconds (Finite r)) = (0 \<le> r)"
| "sample_timecode_ok (TcSeconds x) = False"
| "sample_timecode_ok (TcText t) =
     (case decimal_float (if t \<noteq> [] \<and> last t = CHR ''s'' then butlast t else t) of
        Some (Finite r) \<Rightarrow> 0 \<le> r
      | _ \<Rightarrow> False)"

definition sample_env :: env where
  "sample_env = \<lparr>
     str_upper = ascii_upper,
     str_lower = ascii_lower,
     int_of_str = decimal_int,
     float_of_str = decimal_float,
     str_of_num = str_num,
     FrameTimecode_ok = sample_timecode_ok,
     FlashFilter_Mode_names = [''MERGE'', ''SUPPRESS''],
     Interpolation_names = [''NEAREST'', ''LINEAR'', ''CUBIC'', ''AREA'', ''LANCZOS4''],
     DEFAULT_COMPONENT_WEIGHTS = (Finite 1, Finite 1, Finite 1, Finite 0),
     DEFAULT_FFMPEG_ARGS =
       ''-map 0:v:0 -map 0:a? -map 0:s? -c:v libx264 -preset veryfast -crf 22 -c:a aac'',
     CONFIG_FILE_PATH = ''/home/user/.config/PySceneDetect/scenedetect.cfg'',
     path_exists = (\<lambda>p. False),
     read_config = (\<lambda>p. ReadOSError ''No such file or directory'') \<rparr>"

text \<open>The sample environment with one file at \<open>path\<close>, which the tokenizer reads as \<open>config\<close>.\<close>

definition env_with_file :: "string \<Rightarrow> config \<Rightarrow> env" where
  "env_with_file path config =
     sample_env \<lparr>
       path_exists := (\<lambda>p. p = path),
       read_config := (\<lambda>p. if p = path then ReadOk config
                            else ReadOSError ''No such file or directory'') \<rparr>"

text \<open>Sample files, as the tokenizer hands them over.\<close>

definition unknown_section_file :: config where
  "unknown_section_file =
     [(''bogus'', [(''threshold'', ''1'')]),
      (''backend-pyav'', [(''suppress-output'', ''maybe'')]),
      (''list-scenes'', [(''cut-format'', ''bogus'')])]"

definition bad_flag_file :: config where
  "bad_flag_file =
     [(''backend-pyav'', [(''suppress-output'', ''maybe'')]),
      (''global'', [(''backend'', ''pyav'')])]"

definition bad_label_file :: config where
  "bad_label_file = [(''list-scenes'', [(''cut-format'', ''bogus'')])]"

definition two_bad_options_file :: config where
  "two_bad_options_file =
     [(''backend-pyav'', [(''suppress-output'', ''maybe'')]),
      (''list-scenes'', [(''cut-format'', ''bogus'')])]"

definition good_file :: config where
  "good_file =
     [(''global'', [(''backend'', ''pyav'')]),
      (''list-scenes'', [(''cut-format'', ''frames''), (''quiet'', ''yes'')])]"

definition two_value_errors_file :: config where
  "two_value_errors_file =
     [(''detect-content'', [(''threshold'', ''300.0'')]),
      (''backend-pyav'', [(''suppress-output'', ''maybe'')])]"

text \<open>What the loads of two of these files leave behind.\<close>

definition empty_sections :: config_dict where
  "empty_sections = map (\<lambda>name. (name, [])) [''backend-opencv'', ''backend-pyav'',
     ''detect-adaptive'', ''detect-content'', ''detect-hash'', ''detect-hist'',
     ''detect-threshold'', ''load-scenes'', ''export-html'', ''list-scenes'', ''global'',
     ''save-images'', ''save-qp'', ''split-video'']"

definition bad_flag_line :: string where
  "bad_flag_line =
     ''Invalid [backend-pyav] value for suppress-output: maybe is not a valid yes/no value.''"

definition bad_flag_registry :: registry where
  "bad_flag_registry =
     \<lparr>p_config = AList.update ''global'' [(''backend'', PyStr ''pyav'')] empty_sections,
      p_init_log = [(INFO, ''Loading config from file:'' @ [CHR 0x0A] @ ''  my.cfg''),
                    (ERROR, bad_flag_line)],
      p_initialized = False\<rparr>"

definition good_registry :: registry where
  "good_registry =
     \<lparr>p_config = AList.update ''list-scenes''
          [(''cut-format'', PyEnum TimecodeFormat ''FRAMES''), (''quiet'', PyBool True)]
          (AList.update ''global'' [(''backend'', PyStr ''pyav'')] empty_sections),
      p_init_log = [(INFO, ''Loading config from file:'' @ [CHR 0x0A] @ ''  my.cfg'')],
      p_initialized = True\<rparr>"

text \<open>A file that sets a range option to \<open>nan\<close>, and the registry its load returns.\<close>

definition nan_threshold_file :: config where
  "nan_threshold_file = [(''detect-content'', [(''threshold'', ''nan'')])]"

definition nan_threshold_registry :: registry where
  "nan_threshold_registry =
     \<lparr>p_config = AList.update ''detect-content''
          [(''threshold'', PyValidated (RangeValue (PyFloat NaN) (PyFloat (Finite 0))
                             (PyFloat (Finite 255))))]
          empty_sections,
      p_init_log = [(INFO, ''Loading config from file:'' @ [CHR 0x0A] @ ''  my.cfg'')],
      p_initialized = True\<rparr>"

subsection \<open>Reading aids\<close>

text \<open>The path \<open>_load_from_disk\<close> settles on: the one given, or \<open>CONFIG_FILE_PATH\<close>.\<close>

definition config_path :: "env \<Rightarrow> string option \<Rightarrow> string" where
  "config_path e path =
     (case path of None \<Rightarrow> CONFIG_FILE_PATH e | Some p \<Rightarrow> if p = [] then CONFIG_FILE_PATH e else p)"

text \<open>The first line of the log when a file is about to be read.\<close>

definition loading_entry :: "env \<Rightarrow> string option \<Rightarrow> log_level \<times> string" where
  "loading_entry e path =
     (case path of
        None \<Rightarrow> (INFO, ''Loading user config file:'' @ [CHR 0x0A] @ ''  '' @ CONFIG_FILE_PATH e)
      | Some p \<Rightarrow>
          if p = [] then
            (INFO, ''Loading user config file:'' @ [CHR 0x0A] @ ''  '' @ CONFIG_FILE_PATH e)
          else (INFO, ''Loading config from file:'' @ [CHR 0x0A] @ ''  '' @ p))"

text \<open>A freshly constructed registry, before \<open>_load_from_disk\<close> runs.\<close>

definition fresh :: registry where
  "fresh = \<lparr>p_config = [], p_init_log = [], p_initialized = False\<rparr>"

text \<open>
  The label that the parser looks up for an option whose default is an enumeration
  member, and whether every such option of the file names a member.
\<close>

definition normalized_label :: "env \<Rightarrow> string \<Rightarrow> string" where
  "normalized_label e raw = str_upper e (strip (replace (CHR 0x0A) '' '' raw))"

definition label_known :: "env \<Rightarrow> config \<Rightarrow> string \<Rightarrow> string \<times> pyvalue \<Rightarrow> bool" where
  "label_known e config command entry =
     (case lookup2 config command (fst entry) of
        None \<Rightarrow> True
      | Some raw \<Rightarrow>
          (case snd entry of
             PyEnum cls d \<Rightarrow> normalized_label e raw \<in> set (enum_names e cls)
           | _ \<Rightarrow> True))"

definition labels_known :: "env \<Rightarrow> config \<Rightarrow> bool" where
  "labels_known e config =
     list_all (\<lambda>(command, declared). list_all (label_known e config command) declared)
       (CONFIG_MAP e)"

text \<open>The error line, if any, that one option of the schema adds to \<open>errors\<close>.\<close>

definition rejection :: "env \<Rightarrow> config \<Rightarrow> string \<Rightarrow> string \<times> pyvalue \<Rightarrow> string list" where
  "rejection e config command entry =
     (case lookup2 config command (fst entry) of
        None \<Rightarrow> []
      | Some raw \<Rightarrow>
          (case parse_value e command (fst entry) (snd entry) raw of
             Inr (Rejected line) \<Rightarrow> [line]
           | _ \<Rightarrow> []))"

text \<open>The error lines of a whole file, in schema order.\<close>

definition rejections :: "env \<Rightarrow> config \<Rightarrow> string list" where
  "rejections e config =
     concat (map (\<lambda>(command, declared). concat (map (rejection e config command) declared))
       (CONFIG_MAP e))"

section \<open>Properties\<close>

subsection \<open>Auxiliary facts on numbers and on the sample environment\<close>

lemma float_lt_irrefl: "\<not> float_lt a a"
  by (cases a) simp_all

lemma float_eq_same: "float_eq a b \<Longrightarrow> a = b \<and> a \<noteq> NaN"
  by (cases a; cases b) simp_all

lemma float_lt_finite: "float_lt (Finite a) (Finite b) = (a < b)"
  by simp

lemmas text_defs = strip_def replace_def ascii_upper_def ascii_lower_def isspace_def whitespace_def
  lower_letters_def upper_letters_def split_def

lemmas reader_defs = decimal_int_def decimal_float_def split_sign_def digit_value_def

lemmas schema_defs = CONFIG_MAP_def CHOICE_MAP_def lookup2_def int_value_def float_value_def
  int_range_def float_range_def PLACEHOLDER_def PYAV_THREADING_MODES_def

subsection \<open>Kernel sizes\<close>

text \<open>
  Claim C7. \<open>KernelSizeValue\<close> built from \<open>-1\<close> holds the automatic size \<open>None\<close>. Every
  other negative input and every even input raises \<open>ValueError\<close>. Every positive odd
  input is stored as it is. \<open>from_config\<close> reads the text as an integer, builds the value
  from it, and turns a failure of either step into its \<open>OptionParseFailure\<close>.
\<close>

theorem KernelSizeValue_construction:
  "KernelSizeValue_init (- 1) = Inr (KernelSizeValue None)
   \<and> (v < 0 \<and> v \<noteq> - 1 \<longrightarrow> KernelSizeValue_init v = Inl ValueError)
   \<and> (even v \<longrightarrow> KernelSizeValue_init v = Inl ValueError)
   \<and> (0 < v \<and> odd v \<longrightarrow> KernelSizeValue_init v = Inr (KernelSizeValue (Some v)))
   \<and> (int_of_str e raw = None \<longrightarrow>
        KernelSizeValue_from_config e raw = Inl KernelSizeValue_failure)
   \<and> (int_of_str e raw = Some v \<longrightarrow>
        KernelSizeValue_from_config e raw =
          (case KernelSizeValue_init v of
             Inl ex \<Rightarrow> Inl KernelSizeValue_failure
           | Inr r \<Rightarrow> Inr r))"
proof -
  have auto_size: "KernelSizeValue_init (- 1) = Inr (KernelSizeValue None)"
    by (simp add: KernelSizeValue_init_def)
  have negative_case: "v < 0 \<Longrightarrow> v \<noteq> - 1 \<Longrightarrow> KernelSizeValue_init v = Inl ValueError"
    by (simp add: KernelSizeValue_init_def)
  have even_case: "even v \<Longrightarrow> KernelSizeValue_init v = Inl ValueError"
    by (auto simp: KernelSizeValue_init_def even_iff_mod_2_eq_zero)
  have odd_case: "0 < v \<Longrightarrow> odd v \<Longrightarrow> KernelSizeValue_init v = Inr (KernelSizeValue (Some v))"
    by (auto simp: KernelSizeValue_init_def odd_iff_mod_2_eq_one)
  have no_text: "int_of_str e raw = None \<Longrightarrow>
      KernelSizeValue_from_config e raw = Inl KernelSizeValue_failure"
    by (simp add: KernelSizeValue_from_config_def)
  have from_text: "int_of_str e raw = Some v \<Longrightarrow>
      KernelSizeValue_from_config e raw =
        (case KernelSizeValue_init v of Inl ex \<Rightarrow> Inl KernelSizeValue_failure | Inr r \<Rightarrow> Inr r)"
    by (simp add: KernelSizeValue_from_config_def KernelSizeValue_init_def)
  show ?thesis
    using auto_size negative_case even_case odd_case no_text from_text by blast
qed

theorem KernelSizeValue_construction_witness:
  "KernelSizeValue_init (- 2) = Inl ValueError
   \<and> KernelSizeValue_init 0 = Inl ValueError
   \<and> KernelSizeValue_init 4 = Inl ValueError
   \<and> KernelSizeValue_init 3 = Inr (KernelSizeValue (Some 3))
   \<and> KernelSizeValue_init 5 = Inr (KernelSizeValue (Some 5))
   \<and> KernelSizeValue_from_config sample_env ''five'' = Inl KernelSizeValue_failure
   \<and> KernelSizeValue_from_config sample_env ''5'' = Inr (KernelSizeValue (Some 5))
   \<and> KernelSizeValue_from_config sample_env ''4'' = Inl KernelSizeValue_failure"
proof -
  have five: "int_of_str sample_env ''5'' = Some 5"
    by (simp add: sample_env_def reader_defs text_defs)
  have four: "int_of_str sample_env ''4'' = Some 4"
    by (simp add: sample_env_def reader_defs text_defs)
  have word: "int_of_str sample_env ''five'' = None"
    by (simp add: sample_env_def reader_defs text_defs)
  show ?thesis
    using KernelSizeValue_construction [where v = "- 2"]
      KernelSizeValue_construction [where v = 0]
      KernelSizeValue_construction [where v = 3]
      KernelSizeValue_construction [where v = 4 and e = sample_env and raw = "''4''"]
      KernelSizeValue_construction [where v = 5 and e = sample_env and raw = "''5''"]
      KernelSizeValue_construction [where e = sample_env and raw = "''five''"]
      five four word
    by simp
qed

subsection \<open>Ranges\<close>

lemma float_order_total:
  "a \<noteq> NaN \<Longrightarrow> b \<noteq> NaN \<Longrightarrow> (\<not> float_lt a b) = (float_lt b a \<or> float_eq b a)"
  by (cases a; cases b) auto

text \<open>
  \<open>RangeValue\<close> raises exactly when the value is below \<open>min_val\<close> or above \<open>max_val\<close>;
  otherwise it stores the three numbers. When none of the three is NaN, that is: it
  succeeds exactly when \<open>min_val <= value <= max_val\<close>, and raises otherwise. A value equal
  to \<open>min_val\<close> or to \<open>max_val\<close> is accepted (the bounds being in order). \<open>from_config\<close>
  reads the text with the integer reader when the default's value is an \<open>int\<close> and with
  the float reader otherwise, checks the number against the default's bounds, and turns
  a failure of either step into its \<open>OptionParseFailure\<close>.
\<close>

theorem RangeValue_inclusive_bounds:
  "(num_lt v lo \<or> num_gt v hi \<longrightarrow> RangeValue_init v lo hi = Inl ValueError)
   \<and> (\<not> num_lt v lo \<and> \<not> num_gt v hi \<longrightarrow> RangeValue_init v lo hi = Inr (RangeValue v lo hi))
   \<and> (as_float v \<noteq> NaN \<and> as_float lo \<noteq> NaN \<and> as_float hi \<noteq> NaN \<longrightarrow>
        (RangeValue_init v lo hi = Inr (RangeValue v lo hi)) = (num_le lo v \<and> num_le v hi))
   \<and> (as_float v \<noteq> NaN \<and> as_float lo \<noteq> NaN \<and> as_float hi \<noteq> NaN \<longrightarrow>
        (RangeValue_init v lo hi = Inl ValueError) = (\<not> (num_le lo v \<and> num_le v hi)))
   \<and> (as_float v = Finite x \<and> as_float lo = Finite a \<and> as_float hi = Finite b \<longrightarrow>
        (RangeValue_init v lo hi = Inr (RangeValue v lo hi)) = (a \<le> x \<and> x \<le> b))
   \<and> (as_float v = Finite x \<and> as_float lo = Finite a \<and> as_float hi = Finite b \<longrightarrow>
        (RangeValue_init v lo hi = Inl ValueError) = (x < a \<or> b < x))
   \<and> (\<not> num_gt lo hi \<and> num_eq v lo \<longrightarrow> RangeValue_init v lo hi = Inr (RangeValue v lo hi))
   \<and> (\<not> num_gt lo hi \<and> num_eq v hi \<longrightarrow> RangeValue_init v lo hi = Inr (RangeValue v lo hi))
   \<and> RangeValue_reader e (PyInt i) raw = map_option PyInt (int_of_str e raw)
   \<and> RangeValue_reader e (PyFloat f) raw = map_option PyFloat (float_of_str e raw)
   \<and> RangeValue_from_config e raw d lo hi =
        (case RangeValue_reader e d raw of
           None \<Rightarrow> Inl (RangeValue_failure e lo hi)
         | Some n \<Rightarrow>
             if num_lt n lo \<or> num_gt n hi then Inl (RangeValue_failure e lo hi)
             else Inr (RangeValue n lo hi))"
proof -
  have at_min: "\<not> num_gt lo hi \<Longrightarrow> num_eq v lo \<Longrightarrow> \<not> num_lt v lo \<and> \<not> num_gt v hi"
    using float_eq_same [of "as_float v" "as_float lo"] float_lt_irrefl
    by (auto simp: num_gt_def num_lt_def num_eq_def)
  have at_max: "\<not> num_gt lo hi \<Longrightarrow> num_eq v hi \<Longrightarrow> \<not> num_lt v lo \<and> \<not> num_gt v hi"
    using float_eq_same [of "as_float v" "as_float hi"] float_lt_irrefl
    by (auto simp: num_gt_def num_lt_def num_eq_def)
  have inside: "as_float v \<noteq> NaN \<Longrightarrow> as_float lo \<noteq> NaN \<Longrightarrow> as_float hi \<noteq> NaN \<Longrightarrow>
      (\<not> num_lt v lo \<and> \<not> num_gt v hi) = (num_le lo v \<and> num_le v hi)"
    using float_order_total [of "as_float v" "as_float lo"]
      float_order_total [of "as_float hi" "as_float v"]
    by (simp add: num_le_def num_lt_def num_gt_def num_eq_def)
  have numbers_ok: "as_float v \<noteq> NaN \<Longrightarrow> as_float lo \<noteq> NaN \<Longrightarrow> as_float hi \<noteq> NaN \<Longrightarrow>
      (RangeValue_init v lo hi = Inr (RangeValue v lo hi)) = (num_le lo v \<and> num_le v hi)"
    using inside by (auto simp: RangeValue_init_def)
  have numbers_bad: "as_float v \<noteq> NaN \<Longrightarrow> as_float lo \<noteq> NaN \<Longrightarrow> as_float hi \<noteq> NaN \<Longrightarrow>
      (RangeValue_init v lo hi = Inl ValueError) = (\<not> (num_le lo v \<and> num_le v hi))"
    using inside by (auto simp: RangeValue_init_def)
  have finite_ok: "as_float v = Finite x \<Longrightarrow> as_float lo = Finite a \<Longrightarrow> as_float hi = Finite b \<Longrightarrow>
      (RangeValue_init v lo hi = Inr (RangeValue v lo hi)) = (a \<le> x \<and> x \<le> b)"
    by (auto simp: RangeValue_init_def num_lt_def num_gt_def)
  have finite_bad: "as_float v = Finite x \<Longrightarrow> as_float lo = Finite a \<Longrightarrow> as_float hi = Finite b \<Longrightarrow>
      (RangeValue_init v lo hi = Inl ValueError) = (x < a \<or> b < x)"
    by (auto simp: RangeValue_init_def num_lt_def num_gt_def)
  have from_text: "RangeValue_from_config e raw d lo hi =
        (case RangeValue_reader e d raw of
           None \<Rightarrow> Inl (RangeValue_failure e lo hi)
         | Some n \<Rightarrow>
             if num_lt n lo \<or> num_gt n hi then Inl (RangeValue_failure e lo hi)
             else Inr (RangeValue n lo hi))"
    by (simp add: RangeValue_from_config_def RangeValue_init_def split: option.splits)
  have below_above: "num_lt v lo \<or> num_gt v hi \<longrightarrow> RangeValue_init v lo hi = Inl ValueError"
      "\<not> num_lt v lo \<and> \<not> num_gt v hi \<longrightarrow> RangeValue_init v lo hi = Inr (RangeValue v lo hi)"
    by (simp_all add: RangeValue_init_def)
  have readers: "RangeValue_reader e (PyInt i) raw = map_option PyInt (int_of_str e raw)"
      "RangeValue_reader e (PyFloat f) raw = map_option PyFloat (float_of_str e raw)"
    by (simp_all add: RangeValue_reader_def)
  show ?thesis
    using at_min at_max numbers_ok numbers_bad finite_ok finite_bad from_text below_above readers
    by blast
qed

theorem RangeValue_inclusive_bounds_witness:
  "RangeValue_init (PyFloat (Finite 300)) (PyFloat (Finite 0)) (PyFloat (Finite 255))
     = Inl ValueError
   \<and> RangeValue_init (PyInt (- 1)) (PyInt 0) (PyInt 100) = Inl ValueError
   \<and> RangeValue_init (PyInt 0) (PyInt 0) (PyInt 100) = Inr (RangeValue (PyInt 0) (PyInt 0) (PyInt 100))
   \<and> RangeValue_init (PyInt 100) (PyInt 0) (PyInt 100)
       = Inr (RangeValue (PyInt 100) (PyInt 0) (PyInt 100))
   \<and> RangeValue_init (PyFloat (Finite 255)) (PyFloat (Finite 0)) (PyFloat (Finite 255))
       = Inr (RangeValue (PyFloat (Finite 255)) (PyFloat (Finite 0)) (PyFloat (Finite 255)))
   \<and> RangeValue_from_config sample_env ''1.5'' (PyInt 0) (PyFloat (Finite (- 100)))
         (PyFloat (Finite 100))
       = Inl (RangeValue_failure sample_env (PyFloat (Finite (- 100))) (PyFloat (Finite 100)))
   \<and> RangeValue_from_config sample_env ''255'' (PyFloat (Finite 27)) (PyFloat (Finite 0))
         (PyFloat (Finite 255))
       = Inr (RangeValue (PyFloat (Finite 255)) (PyFloat (Finite 0)) (PyFloat (Finite 255)))"
proof -
  have not_int: "int_of_str sample_env ''1.5'' = None"
    by (simp add: sample_env_def reader_defs text_defs)
  have top: "float_of_str sample_env ''255'' = Some (Finite 255)"
    by (simp add: sample_env_def reader_defs text_defs)
  have above: "num_gt (PyFloat (Finite 300)) (PyFloat (Finite 255))"
    by (simp add: num_gt_def)
  have below: "num_lt (PyInt (- 1)) (PyInt 0)"
    by (simp add: num_lt_def)
  have ordered: "\<not> num_gt (PyInt 0) (PyInt 100)" "num_eq (PyInt 0) (PyInt 0)"
      "num_eq (PyInt 100) (PyInt 100)"
    by (simp_all add: num_gt_def num_eq_def)
  have inside: "\<not> num_lt (PyFloat (Finite 255)) (PyFloat (Finite 0))"
      "\<not> num_gt (PyFloat (Finite 255)) (PyFloat (Finite 255))"
    by (simp_all add: num_lt_def num_gt_def)
  show ?thesis
    using RangeValue_inclusive_bounds [where v = "PyFloat (Finite 300)"
        and lo = "PyFloat (Finite 0)" and hi = "PyFloat (Finite 255)"]
      RangeValue_inclusive_bounds [where v = "PyInt (- 1)" and lo = "PyInt 0" and hi = "PyInt 100"]
      RangeValue_inclusive_bounds [where v = "PyInt 0" and lo = "PyInt 0" and hi = "PyInt 100"]
      RangeValue_inclusive_bounds [where v = "PyInt 100" and lo = "PyInt 0" and hi = "PyInt 100"]
      RangeValue_inclusive_bounds [where v = "PyFloat (Finite 255)" and lo = "PyFloat (Finite 0)"
        and hi = "PyFloat (Finite 255)" and x = 255 and a = 0 and b = 255
        and e = sample_env and raw = "''255''" and d = "PyFloat (Finite 27)"
        and f = "Finite 27"]
      RangeValue_inclusive_bounds [where lo = "PyFloat (Finite (- 100))"
        and hi = "PyFloat (Finite 100)" and e = sample_env and raw = "''1.5''"
        and d = "PyInt 0" and i = 0]
      not_int top above below ordered inside
    by simp
qed

subsection \<open>The structural validator\<close>





subsection \<open>Resolution of a value\<close>

lemma value_property_is_payload: "value_property validated \<noteq> PyValidated w"
  by (cases validated rule: value_property.cases) simp_all

text \<open>
  Claim C8. For a (section, option) of the schema: an override other than \<open>None\<close> is
  returned, whatever the file and the default are. Without one, the value taken is the
  entry of the resolved map if the file set the option, and the schema default
  otherwise; and what is returned for a \<open>ValidatedValue\<close> is its payload: the frame
  count, seconds or text of a timecode, the number of a range, the tuple of score
  weights, and for a kernel size the integer, or \<open>None\<close> for the automatic size. Any
  other value is returned as it is. The result is never the wrapper.
\<close>

theorem get_value_precedence:
  assumes "lookup2 (CONFIG_MAP e) command option = Some dflt"
  shows "(override \<noteq> PyNone \<longrightarrow> get_value e self command option override = Inr override)
    \<and> (\<forall>taken. override = PyNone
           \<and> (lookup2 (config_dict self) command option = Some taken
                \<or> lookup2 (config_dict self) command option = None \<and> taken = dflt) \<longrightarrow>
         get_value e self command option override =
           Inr (case taken of
                  PyValidated (TimecodeValue (TcFrames n)) \<Rightarrow> PyNumber (PyInt n)
                | PyValidated (TimecodeValue (TcSeconds s)) \<Rightarrow> PyNumber (PyFloat s)
                | PyValidated (TimecodeValue (TcText t)) \<Rightarrow> PyStr t
                | PyValidated (RangeValue x lo hi) \<Rightarrow> PyNumber x
                | PyValidated (ScoreWeightsValue w) \<Rightarrow> PyTuple w
                | PyValidated (KernelSizeValue None) \<Rightarrow> PyNone
                | PyValidated (KernelSizeValue (Some k)) \<Rightarrow> PyNumber (PyInt k)
                | plain \<Rightarrow> plain))
    \<and> (override = PyNone \<longrightarrow>
         (\<forall>w. get_value e self command option override \<noteq> Inr (PyValidated w)))"
proof -
  have with_override:
    "override \<noteq> PyNone \<Longrightarrow> get_value e self command option override = Inr override"
    using assms by (simp add: get_value_def)
  have from_file: "override = PyNone \<Longrightarrow> lookup2 (config_dict self) command option = Some taken \<Longrightarrow>
      get_value e self command option override =
        Inr (case taken of
               PyValidated (TimecodeValue (TcFrames n)) \<Rightarrow> PyNumber (PyInt n)
             | PyValidated (TimecodeValue (TcSeconds s)) \<Rightarrow> PyNumber (PyFloat s)
             | PyValidated (TimecodeValue (TcText t)) \<Rightarrow> PyStr t
             | PyValidated (RangeValue x lo hi) \<Rightarrow> PyNumber x
             | PyValidated (ScoreWeightsValue w) \<Rightarrow> PyTuple w
             | PyValidated (KernelSizeValue None) \<Rightarrow> PyNone
             | PyValidated (KernelSizeValue (Some k)) \<Rightarrow> PyNumber (PyInt k)
             | plain \<Rightarrow> plain)" for taken
    using assms
    by (simp add: get_value_def config_dict_def
        split: pyvalue.splits validated_value.splits timecode.splits option.splits)
  have from_schema: "override = PyNone \<Longrightarrow> lookup2 (config_dict self) command option = None \<Longrightarrow>
      get_value e self command option override =
        Inr (case dflt of
               PyValidated (TimecodeValue (TcFrames n)) \<Rightarrow> PyNumber (PyInt n)
             | PyValidated (TimecodeValue (TcSeconds s)) \<Rightarrow> PyNumber (PyFloat s)
             | PyValidated (TimecodeValue (TcText t)) \<Rightarrow> PyStr t
             | PyValidated (RangeValue x lo hi) \<Rightarrow> PyNumber x
             | PyValidated (ScoreWeightsValue w) \<Rightarrow> PyTuple w
             | PyValidated (KernelSizeValue None) \<Rightarrow> PyNone
             | PyValidated (KernelSizeValue (Some k)) \<Rightarrow> PyNumber (PyInt k)
             | plain \<Rightarrow> plain)"
    using assms
    by (simp add: get_value_def config_dict_def
        split: pyvalue.splits validated_value.splits timecode.splits option.splits)
  have never_wrapped: "override = PyNone \<Longrightarrow>
      get_value e self command option override \<noteq> Inr (PyValidated w)" for w
    using assms value_property_is_payload
    by (auto simp: get_value_def Let_def split: option.splits pyvalue.splits)
  have first: "override \<noteq> PyNone \<longrightarrow> get_value e self command option override = Inr override"
    using with_override by simp
  have second: "\<forall>taken. override = PyNone
           \<and> (lookup2 (config_dict self) command option = Some taken
                \<or> lookup2 (config_dict self) command option = None \<and> taken = dflt) \<longrightarrow>
         get_value e self command option override =
           Inr (case taken of
                  PyValidated (TimecodeValue (TcFrames n)) \<Rightarrow> PyNumber (PyInt n)
                | PyValidated (TimecodeValue (TcSeconds s)) \<Rightarrow> PyNumber (PyFloat s)
                | PyValidated (TimecodeValue (TcText t)) \<Rightarrow> PyStr t
                | PyValidated (RangeValue x lo hi) \<Rightarrow> PyNumber x
                | PyValidated (ScoreWeightsValue w) \<Rightarrow> PyTuple w
                | PyValidated (KernelSizeValue None) \<Rightarrow> PyNone
                | PyValidated (KernelSizeValue (Some k)) \<Rightarrow> PyNumber (PyInt k)
                | plain \<Rightarrow> plain)"
    using from_file from_schema by auto
  have third: "override = PyNone \<longrightarrow>
         (\<forall>w. get_value e self command option override \<noteq> Inr (PyValidated w))"
    using never_wrapped by simp
  show ?thesis
    by (rule conjI [OF first conjI [OF second third]])
qed

theorem get_value_precedence_witness:
  "get_value sample_env
     \<lparr>p_config = [(''detect-content'', [(''threshold'', float_range 30 0 255)])],
      p_init_log = [], p_initialized = True\<rparr>
     ''detect-content'' ''threshold'' (PyNumber (PyFloat (Finite 5)))
     = Inr (PyNumber (PyFloat (Finite 5)))
   \<and> get_value sample_env
     \<lparr>p_config = [(''detect-content'', [(''threshold'', float_range 30 0 255)])],
      p_init_log = [], p_initialized = True\<rparr>
     ''detect-content'' ''threshold'' PyNone
     = Inr (PyNumber (PyFloat (Finite 30)))
   \<and> get_value sample_env
     \<lparr>p_config = [(''detect-content'', [(''threshold'', float_range 30 0 255)])],
      p_init_log = [], p_initialized = True\<rparr>
     ''detect-content'' ''kernel-size'' PyNone
     = Inr PyNone
   \<and> get_value sample_env
     \<lparr>p_config = [(''detect-content'', [(''threshold'', float_range 30 0 255)])],
      p_init_log = [], p_initialized = True\<rparr>
     ''global'' ''min-scene-len'' PyNone
     = Inr (PyStr ''0.6s'')
   \<and> get_value sample_env
     \<lparr>p_config = [(''detect-content'', [(''threshold'', float_range 30 0 255)])],
      p_init_log = [], p_initialized = True\<rparr>
     ''detect-content'' ''luma-only'' PyNone
     = Inr (PyBool False)"
proof -
  let ?self = "\<lparr>p_config = [(''detect-content'', [(''threshold'', float_range 30 0 255)])],
      p_init_log = [], p_initialized = True\<rparr>"
  have threshold: "lookup2 (CONFIG_MAP sample_env) ''detect-content'' ''threshold''
      = Some (float_range 27 0 255)"
    by (simp add: CONFIG_MAP_def lookup2_def)
  have kernel: "lookup2 (CONFIG_MAP sample_env) ''detect-content'' ''kernel-size''
      = Some (PyValidated (KernelSizeValue None))"
    by (simp add: CONFIG_MAP_def lookup2_def)
  have scene: "lookup2 (CONFIG_MAP sample_env) ''global'' ''min-scene-len''
      = Some (PyValidated (TimecodeValue (TcText ''0.6s'')))"
    by (simp add: CONFIG_MAP_def lookup2_def)
  have luma: "lookup2 (CONFIG_MAP sample_env) ''detect-content'' ''luma-only''
      = Some (PyBool False)"
    by (simp add: CONFIG_MAP_def lookup2_def)
  have in_file: "lookup2 (config_dict ?self) ''detect-content'' ''threshold''
      = Some (float_range 30 0 255)"
    by (simp add: config_dict_def lookup2_def)
  have not_in_file: "lookup2 (config_dict ?self) ''detect-content'' ''kernel-size'' = None"
      "lookup2 (config_dict ?self) ''global'' ''min-scene-len'' = None"
      "lookup2 (config_dict ?self) ''detect-content'' ''luma-only'' = None"
    by (simp_all add: config_dict_def lookup2_def)
  show ?thesis
    using get_value_precedence [OF threshold, where self = ?self
        and override = "PyNumber (PyFloat (Finite 5))"]
      get_value_precedence [OF threshold, where self = ?self and override = PyNone]
      get_value_precedence [OF kernel, where self = ?self and override = PyNone]
      get_value_precedence [OF scene, where self = ?self and override = PyNone]
      get_value_precedence [OF luma, where self = ?self and override = PyNone]
      in_file not_in_file
    by (simp add: float_range_def)
qed

subsection \<open>Loading\<close>

lemmas load_defs = ConfigRegistry_def load_from_disk_def load_user_config_def load_file_def
  validate_and_parse_def raise_if_errors_def append_log_def

lemma load_from_disk_existing:
  assumes "path_exists e (config_path e path)"
  shows "load_from_disk e path self =
     load_file e (config_path e path)
       (self\<lparr>p_init_log := p_init_log self @ [loading_entry e path]\<rparr>)"
  using assms
  by (cases path)
    (auto simp: load_from_disk_def load_user_config_def config_path_def loading_entry_def
      append_log_def Let_def)

lemma load_file_structural:
  assumes "read_config e p = ReadOk config" "validate_structure e config \<noteq> []"
  shows "load_file e p self =
     (Some (ConfigLoadFailure
              (p_init_log self @ map (Pair ERROR) (validate_structure e config)) None),
      self\<lparr>p_init_log := p_init_log self @ map (Pair ERROR) (validate_structure e config)\<rparr>)"
  using assms by (simp add: load_file_def validate_and_parse_def raise_if_errors_def Let_def)

lemma load_file_value_errors:
  assumes "read_config e p = ReadOk config" "validate_structure e config = []"
    "parse_config e config = Inr (out_map, errors)" "errors \<noteq> []"
  shows "load_file e p self =
     (Some (ConfigLoadFailure (p_init_log self @ map (Pair ERROR) errors) None),
      self\<lparr>p_config := out_map, p_init_log := p_init_log self @ map (Pair ERROR) errors\<rparr>)"
  using assms by (simp add: load_file_def validate_and_parse_def raise_if_errors_def Let_def)

lemma load_file_clean:
  assumes "read_config e p = ReadOk config" "validate_structure e config = []"
    "parse_config e config = Inr (out_map, [])"
  shows "load_file e p self = (None, self\<lparr>p_config := out_map\<rparr>)"
  using assms by (simp add: load_file_def validate_and_parse_def raise_if_errors_def Let_def)

lemma load_file_returns:
  assumes "load_file e p self = (None, self')"
  shows "\<exists>config out_map. read_config e p = ReadOk config \<and> validate_structure e config = []
           \<and> parse_config e config = Inr (out_map, []) \<and> self' = self\<lparr>p_config := out_map\<rparr>"
proof (cases "read_config e p")
  case (ReadOk config)
  show ?thesis
  proof (cases "validate_structure e config = []")
    case True
    show ?thesis
    proof (cases "parse_config e config")
      case (Inl ex)
      with assms ReadOk True show ?thesis
        by (simp add: load_file_def validate_and_parse_def Let_def)
    next
      case (Inr result)
      obtain out_map errors where result: "result = (out_map, errors)"
        by (cases result)
      with assms ReadOk True Inr show ?thesis
        by (cases "errors = []")
          (simp_all add: load_file_def validate_and_parse_def raise_if_errors_def Let_def)
    qed
  next
    case False
    with assms ReadOk show ?thesis
      by (simp add: load_file_def validate_and_parse_def raise_if_errors_def Let_def)
  qed
qed (use assms in \<open>simp_all add: load_file_def\<close>)

text \<open>
  Claim C9. With no path given and no file at the default location, the constructor
  returns a registry: \<open>initialized\<close> is true, \<open>config_dict\<close> is the empty map, and the log
  is one entry of debug severity.
\<close>

theorem no_user_file_loads_trivially:
  assumes "\<not> path_exists e (CONFIG_FILE_PATH e)"
  shows "ConfigRegistry e None throw_exception =
      Inr \<lparr>p_config = [], p_init_log = [(DEBUG, ''User config file not found.'')],
           p_initialized = True\<rparr>
    \<and> (\<exists>r. ConfigRegistry e None throw_exception = Inr r \<and> initialized r
          \<and> config_dict r = [] \<and> length (fst (get_init_log r)) = 1
          \<and> map fst (fst (get_init_log r)) = [DEBUG])"
  using assms
  by (simp add: ConfigRegistry_def load_from_disk_def load_user_config_def append_log_def
      initialized_def config_dict_def get_init_log_def Let_def)

theorem no_user_file_loads_trivially_witness:
  "\<not> path_exists sample_env (CONFIG_FILE_PATH sample_env)
   \<and> ConfigRegistry sample_env None True =
      Inr \<lparr>p_config = [], p_init_log = [(DEBUG, ''User config file not found.'')],
           p_initialized = True\<rparr>"
proof -
  have absent: "\<not> path_exists sample_env (CONFIG_FILE_PATH sample_env)"
    by (simp add: sample_env_def)
  show ?thesis
    using absent no_user_file_loads_trivially [OF absent, of True] by simp
qed

text \<open>
  Claim C5. When the structural validation of a file that was read returns errors, the
  value parser is not run: the load raises \<open>ConfigLoadFailure\<close> with no underlying cause,
  whose log is the line announcing the file followed by one error entry for each
  structural error and nothing else, and no value is put into the registry. So the
  constructor raises that failure, or, told not to, returns an uninitialized registry
  with the same log and an empty map.
\<close>

theorem structural_errors_skip_value_parser:
  assumes "path_exists e (config_path e path)"
    and "read_config e (config_path e path) = ReadOk config"
    and "validate_structure e config \<noteq> []"
  shows "load_from_disk e path fresh =
      (Some (ConfigLoadFailure
               (loading_entry e path # map (Pair ERROR) (validate_structure e config)) None),
       \<lparr>p_config = [],
        p_init_log = loading_entry e path # map (Pair ERROR) (validate_structure e config),
        p_initialized = False\<rparr>)
    \<and> ConfigRegistry e path True =
        Inl (ConfigLoadFailure
               (loading_entry e path # map (Pair ERROR) (validate_structure e config)) None)
    \<and> ConfigRegistry e path False =
        Inr \<lparr>p_config = [],
             p_init_log = loading_entry e path # map (Pair ERROR) (validate_structure e config),
             p_initialized = False\<rparr>"
proof -
  have loaded: "load_from_disk e path fresh =
      (Some (ConfigLoadFailure
               (loading_entry e path # map (Pair ERROR) (validate_structure e config)) None),
       \<lparr>p_config = [],
        p_init_log = loading_entry e path # map (Pair ERROR) (validate_structure e config),
        p_initialized = False\<rparr>)"
    by (simp add: load_from_disk_existing [OF assms(1)] load_file_structural [OF assms(2,3)]
        fresh_def)
  then show ?thesis
    by (simp add: ConfigRegistry_def fresh_def)
qed

theorem structural_errors_skip_value_parser_witness:
  "validate_structure (env_with_file ''my.cfg'' unknown_section_file) unknown_section_file
     = [''Unsupported config section: [bogus]'']
   \<and> ConfigRegistry (env_with_file ''my.cfg'' unknown_section_file) (Some ''my.cfg'') True =
       Inl (ConfigLoadFailure
         [(INFO, ''Loading config from file:'' @ [CHR 0x0A] @ ''  my.cfg''),
          (ERROR, ''Unsupported config section: [bogus]'')] None)
   \<and> ConfigRegistry (env_with_file ''my.cfg'' unknown_section_file) (Some ''my.cfg'') False =
       Inr \<lparr>p_config = [],
            p_init_log = [(INFO, ''Loading config from file:'' @ [CHR 0x0A] @ ''  my.cfg''),
                          (ERROR, ''Unsupported config section: [bogus]'')],
            p_initialized = False\<rparr>"
proof -
  let ?e = "env_with_file ''my.cfg'' unknown_section_file"
  have there: "path_exists ?e (config_path ?e (Some ''my.cfg''))"
    by (simp add: env_with_file_def config_path_def)
  have parsed: "read_config ?e (config_path ?e (Some ''my.cfg'')) = ReadOk unknown_section_file"
    by (simp add: env_with_file_def config_path_def)
  have lines: "validate_structure ?e unknown_section_file
      = [''Unsupported config section: [bogus]'']"
    by (simp add: validate_structure_def unknown_section_file_def schema_defs
        unsupported_section_def unsupported_option_def)
  then have some: "validate_structure ?e unknown_section_file \<noteq> []"
    by simp
  show ?thesis
    using structural_errors_skip_value_parser [OF there parsed some] lines
    by (simp add: loading_entry_def)
qed

subsection \<open>The value parser\<close>

lemma parse_options_absent:
  "map_of config command = None \<Longrightarrow> parse_options e config command declared state = Inr state"
proof (induction declared arbitrary: state)
  case Nil
  show ?case by simp
next
  case (Cons entry declared)
  obtain option dflt where entry: "entry = (option, dflt)" by (cases entry)
  obtain out errors where state: "state = (out, errors)" by (cases state)
  from Cons show ?case
    by (simp add: entry state lookup2_def)
qed

lemma parse_sections_keys:
  assumes "parse_sections e config schema (out_map, errors) = Inr (out_map', errors')"
    and "distinct (map fst out_map @ map fst schema)"
  shows "map fst out_map' = map fst out_map @ map fst schema"
  using assms
proof (induction schema arbitrary: out_map errors)
  case Nil
  then show ?case by simp
next
  case (Cons entry schema)
  obtain command declared where entry: "entry = (command, declared)" by (cases entry)
  from Cons.prems(1) obtain out errs where
    head: "parse_options e config command declared ([], errors) = Inr (out, errs)"
    and rest: "parse_sections e config schema (AList.update command out out_map, errs) = Inr (out_map', errors')"
    by (auto simp: entry split: sum.splits)
  have keys: "map fst (AList.update command out out_map) = map fst out_map @ [command]"
    using Cons.prems(2) by (simp add: entry update_keys)
  with Cons.prems(2) have "distinct (map fst (AList.update command out out_map) @ map fst schema)"
    by (auto simp: entry)
  from Cons.IH [OF rest this] keys show ?case
    by (simp add: entry)
qed

lemma parse_sections_untouched:
  assumes "parse_sections e config schema (out_map, errors) = Inr (out_map', errors')"
    and "command \<notin> fst ` set schema"
  shows "map_of out_map' command = map_of out_map command"
  using assms
proof (induction schema arbitrary: out_map errors)
  case Nil
  then show ?case by simp
next
  case (Cons entry schema)
  obtain name declared where entry: "entry = (name, declared)" by (cases entry)
  from Cons.prems(1) obtain out errs where
    rest: "parse_sections e config schema (AList.update name out out_map, errs) = Inr (out_map', errors')"
    by (auto simp: entry split: sum.splits)
  from Cons.prems(2) have "command \<notin> fst ` set schema" "command \<noteq> name"
    by (auto simp: entry)
  with Cons.IH [OF rest] show ?case
    by (simp add: update_conv')
qed

lemma parse_sections_section:
  assumes "parse_sections e config schema (out_map, errors) = Inr (out_map', errors')"
    and "distinct (map fst schema)"
    and "(command, declared) \<in> set schema"
  shows "\<exists>out errs errs'. map_of out_map' command = Some out
           \<and> parse_options e config command declared ([], errs) = Inr (out, errs')"
  using assms
proof (induction schema arbitrary: out_map errors)
  case Nil
  then show ?case by simp
next
  case (Cons entry schema)
  obtain name its where entry: "entry = (name, its)" by (cases entry)
  from Cons.prems(1) obtain out errs where
    head: "parse_options e config name its ([], errors) = Inr (out, errs)"
    and rest: "parse_sections e config schema (AList.update name out out_map, errs) = Inr (out_map', errors')"
    by (auto simp: entry split: sum.splits)
  show ?case
  proof (cases "(command, declared) \<in> set schema")
    case True
    from Cons.prems(2) have "distinct (map fst schema)" by simp
    from Cons.IH [OF rest this True] show ?thesis .
  next
    case False
    with Cons.prems(3) have same: "command = name" "declared = its"
      by (auto simp: entry)
    from Cons.prems(2) have "name \<notin> fst ` set schema"
      by (auto simp: entry)
    from parse_sections_untouched [OF rest this]
    have "map_of out_map' name = Some out"
      by (simp add: update_conv')
    with head same show ?thesis by blast
  qed
qed

lemma CONFIG_MAP_distinct: "distinct (map fst (CONFIG_MAP e))"
  by (simp add: CONFIG_MAP_def)

lemma parse_options_stored:
  assumes "parse_options e config command declared (out, errors) = Inr (out', errors')"
    and "map_of out' option = Some v"
  shows "map_of out option = Some v
     \<or> (\<exists>dflt raw. (option, dflt) \<in> set declared \<and> lookup2 config command option = Some raw
           \<and> parse_value e command option dflt raw = Inr (Stored v))"
  using assms
proof (induction declared arbitrary: out errors)
  case Nil
  then show ?case by simp
next
  case (Cons entry declared)
  obtain name dflt where entry: "entry = (name, dflt)" by (cases entry)
  show ?case
  proof (cases "lookup2 config command name")
    case None
    with Cons.prems entry have "parse_options e config command declared (out, errors) = Inr (out', errors')"
      by simp
    from Cons.IH [OF this Cons.prems(2)] show ?thesis
      by (auto simp: entry)
  next
    case (Some raw)
    show ?thesis
    proof (cases "parse_value e command name dflt raw")
      case (Inl ex)
      with Cons.prems entry Some show ?thesis by simp
    next
      case (Inr result)
      show ?thesis
      proof (cases result)
        case (Stored w)
        with Cons.prems entry Some Inr
        have "parse_options e config command declared (AList.update name w out, errors) = Inr (out', errors')"
          by simp
        from Cons.IH [OF this Cons.prems(2)] Some Inr Stored show ?thesis
          by (auto simp: entry update_conv' split: if_splits)
      next
        case (Rejected line)
        with Cons.prems entry Some Inr
        have "parse_options e config command declared (out, errors @ [line]) = Inr (out', errors')"
          by simp
        from Cons.IH [OF this Cons.prems(2)] show ?thesis
          by (auto simp: entry)
      qed
    qed
  qed
qed

lemma CONFIG_MAP_options_distinct:
  "(command, declared) \<in> set (CONFIG_MAP e) \<Longrightarrow> distinct (map fst declared)"
  by (auto simp: CONFIG_MAP_def)

lemma lookup2_member:
  assumes "distinct (map fst d)" "(k1, inner) \<in> set d" "distinct (map fst inner)" "(k2, v) \<in> set inner"
  shows "lookup2 d k1 k2 = Some v"
  using assms by (simp add: lookup2_def)

lemma parse_config_shape:
  assumes "parse_config e config = Inr (out_map, errors)"
  shows "map fst out_map = map fst (CONFIG_MAP e)"
    and "map_of (CONFIG_MAP e) command \<noteq> None \<Longrightarrow> map_of config command = None \<Longrightarrow> map_of out_map command = Some []"
    and "lookup2 out_map command option = Some v \<Longrightarrow>
           \<exists>dflt raw. lookup2 (CONFIG_MAP e) command option = Some dflt
             \<and> lookup2 config command option = Some raw
             \<and> parse_value e command option dflt raw = Inr (Stored v)"
proof -
  from assms have run: "parse_sections e config (CONFIG_MAP e) ([], []) = Inr (out_map, errors)"
    by (simp add: parse_config_def)
  from parse_sections_keys [OF run] CONFIG_MAP_distinct
  show keys: "map fst out_map = map fst (CONFIG_MAP e)" by simp
  {
    assume "map_of (CONFIG_MAP e) command \<noteq> None" "map_of config command = None"
    then obtain declared where "(command, declared) \<in> set (CONFIG_MAP e)"
      by (auto dest: map_of_SomeD)
    from parse_sections_section [OF run CONFIG_MAP_distinct this]
    obtain out errs errs' where "map_of out_map command = Some out"
      "parse_options e config command declared ([], errs) = Inr (out, errs')" by blast
    with parse_options_absent [OF \<open>map_of config command = None\<close>, of e declared "([], errs)"]
    show "map_of out_map command = Some []" by simp
  }
  {
    assume found: "lookup2 out_map command option = Some v"
    then obtain out where out: "map_of out_map command = Some out" "map_of out option = Some v"
      by (auto simp: lookup2_def split: option.splits)
    from out(1) have "(command, out) \<in> set out_map"
      by (rule map_of_SomeD)
    then have "command \<in> set (map fst out_map)"
      by force
    with keys have "command \<in> set (map fst (CONFIG_MAP e))"
      by simp
    then obtain declared where declared: "(command, declared) \<in> set (CONFIG_MAP e)"
      by auto
    from parse_sections_section [OF run CONFIG_MAP_distinct this] out(1)
    obtain errs errs' where "parse_options e config command declared ([], errs) = Inr (out, errs')"
      by auto
    from parse_options_stored [OF this out(2)]
    obtain dflt raw where "(option, dflt) \<in> set declared" "lookup2 config command option = Some raw"
      "parse_value e command option dflt raw = Inr (Stored v)" by auto
    moreover from this(1) declared have "lookup2 (CONFIG_MAP e) command option = Some dflt"
      using lookup2_member [OF CONFIG_MAP_distinct declared CONFIG_MAP_options_distinct [OF declared]]
      by simp
    ultimately show "\<exists>dflt raw. lookup2 (CONFIG_MAP e) command option = Some dflt
             \<and> lookup2 config command option = Some raw
             \<and> parse_value e command option dflt raw = Inr (Stored v)" by blast
  }
qed

lemma ConfigRegistry_initialized:
  assumes "ConfigRegistry e path throw_exception = Inr r" "initialized r"
  shows "\<exists>self'. load_from_disk e path fresh = (None, self') \<and> r = self'\<lparr>p_initialized := True\<rparr>"
proof -
  obtain raised self' where loaded: "load_from_disk e path fresh = (raised, self')"
    by (cases "load_from_disk e path fresh")
  show ?thesis
  proof (cases raised)
    case None
    with assms loaded show ?thesis
      by (simp add: ConfigRegistry_def fresh_def)
  next
    case (Some ex)
    with assms loaded show ?thesis
      by (cases ex) (auto simp: ConfigRegistry_def fresh_def initialized_def split: if_splits)
  qed
qed

text \<open>Evaluations on the sample files.\<close>

lemmas eval_defs = load_defs validate_structure_def parse_config_def schema_defs text_defs
  getboolean_def enum_getitem_def env_with_file_def sample_env_def invalid_type_def
  invalid_choice_def invalid_validated_def unsupported_section_def unsupported_option_def

lemma bad_flag_parse:
  "parse_config (env_with_file ''my.cfg'' bad_flag_file) bad_flag_file
     = Inr (AList.update ''global'' [(''backend'', PyStr ''pyav'')] empty_sections, [bad_flag_line])"
  by (simp add: eval_defs bad_flag_file_def empty_sections_def bad_flag_line_def)

lemma bad_flag_structure:
  "validate_structure (env_with_file ''my.cfg'' bad_flag_file) bad_flag_file = []"
  by (simp add: eval_defs bad_flag_file_def)

lemma good_parse:
  "parse_config (env_with_file ''my.cfg'' good_file) good_file
     = Inr (AList.update ''list-scenes'' [(''cut-format'', PyEnum TimecodeFormat ''FRAMES''),
               (''quiet'', PyBool True)]
             (AList.update ''global'' [(''backend'', PyStr ''pyav'')] empty_sections), [])"
  by (simp add: eval_defs good_file_def empty_sections_def)

lemma good_structure:
  "validate_structure (env_with_file ''my.cfg'' good_file) good_file = []"
  by (simp add: eval_defs good_file_def)

subsection \<open>The resolved map after a load\<close>

text \<open>
  Claim C10. After a successful load of a file that exists, \<open>config_dict\<close> has the
  sections of the schema as its keys, in schema order, whatever sections the file has. A
  schema section that the file does not have is mapped to the empty option map, and an
  option has an entry only if the file sets it (and the schema declares it).
\<close>

theorem loaded_map_has_every_section:
  assumes "path_exists e (config_path e path)"
    and "ConfigRegistry e path throw_exception = Inr r"
    and "initialized r"
  shows "\<exists>config. read_config e (config_path e path) = ReadOk config
    \<and> map fst (config_dict r) = map fst (CONFIG_MAP e)
    \<and> (\<forall>section. map_of (CONFIG_MAP e) section \<noteq> None \<and> map_of config section = None \<longrightarrow>
          map_of (config_dict r) section = Some [])
    \<and> (\<forall>section option v. lookup2 (config_dict r) section option = Some v \<longrightarrow>
          lookup2 config section option \<noteq> None \<and> lookup2 (CONFIG_MAP e) section option \<noteq> None)"
proof -
  from ConfigRegistry_initialized [OF assms(2,3)] obtain self' where
    loaded: "load_from_disk e path fresh = (None, self')" and r: "r = self'\<lparr>p_initialized := True\<rparr>"
    by blast
  from loaded load_from_disk_existing [OF assms(1)]
  have "load_file e (config_path e path) (fresh\<lparr>p_init_log := p_init_log fresh @ [loading_entry e path]\<rparr>)
      = (None, self')" by simp
  from load_file_returns [OF this] obtain config out_map where
    read: "read_config e (config_path e path) = ReadOk config"
    and parsed: "parse_config e config = Inr (out_map, [])"
    and self': "self' = fresh\<lparr>p_init_log := p_init_log fresh @ [loading_entry e path], p_config := out_map\<rparr>"
    by blast
  from r self' have map: "config_dict r = out_map"
    by (simp add: config_dict_def)
  from parse_config_shape [OF parsed] map read show ?thesis
    by (intro exI [of _ config]) (simp, blast)
qed

theorem loaded_map_has_every_section_witness:
  "ConfigRegistry (env_with_file ''my.cfg'' good_file) (Some ''my.cfg'') True
     = Inr good_registry
   \<and> initialized good_registry
   \<and> map fst (config_dict good_registry)
       = map fst (CONFIG_MAP (env_with_file ''my.cfg'' good_file))
   \<and> map_of (config_dict good_registry) ''save-qp'' = Some []
   \<and> lookup2 (config_dict good_registry) ''global'' ''backend'' = Some (PyStr ''pyav'')"
proof -
  let ?e = "env_with_file ''my.cfg'' good_file"
  have there: "path_exists ?e (config_path ?e (Some ''my.cfg''))"
    by (simp add: env_with_file_def config_path_def)
  have parsed: "read_config ?e (config_path ?e (Some ''my.cfg'')) = ReadOk good_file"
    by (simp add: env_with_file_def config_path_def)
  have "load_from_disk ?e (Some ''my.cfg'') fresh = (None, good_registry\<lparr>p_initialized := False\<rparr>)"
    by (simp add: load_from_disk_existing [OF there]
        load_file_clean [OF parsed good_structure good_parse]
        fresh_def good_registry_def loading_entry_def)
  then have built: "ConfigRegistry ?e (Some ''my.cfg'') True = Inr good_registry"
    by (simp add: ConfigRegistry_def fresh_def good_registry_def)
  have ready: "initialized good_registry"
    by (simp add: initialized_def good_registry_def)
  have known: "map_of (CONFIG_MAP ?e) ''save-qp'' \<noteq> None" "map_of good_file ''save-qp'' = None"
    by (simp_all add: CONFIG_MAP_def good_file_def)
  have entry: "lookup2 (config_dict good_registry) ''global'' ''backend'' = Some (PyStr ''pyav'')"
    by (simp add: config_dict_def good_registry_def empty_sections_def lookup2_def)
  from loaded_map_has_every_section [OF there built ready] parsed
  have "map fst (config_dict good_registry) = map fst (CONFIG_MAP ?e)
      \<and> (\<forall>section. map_of (CONFIG_MAP ?e) section \<noteq> None \<and> map_of good_file section = None \<longrightarrow>
            map_of (config_dict good_registry) section = Some [])"
    by auto
  with known built ready entry show ?thesis
    by simp
qed

subsection \<open>Enumerated labels\<close>

text \<open>
  Claim C2 does not hold of the code. For \<open>cut-format = bogus\<close> the lookup
  \<open>TimecodeFormat['BOGUS']\<close> raises \<open>KeyError\<close>; the handler around it catches \<open>TypeError\<close>
  and the outer one \<open>ValueError\<close>, so no "must be one of" line is recorded and the
  exception leaves the parser and the constructor, also when the constructor is told
  not to raise.
\<close>

theorem invalid_enum_label_escapes:
  "validate_structure (env_with_file ''my.cfg'' bad_label_file) bad_label_file = []
   \<and> parse_config (env_with_file ''my.cfg'' bad_label_file) bad_label_file
       = Inl (KeyError ''BOGUS'')
   \<and> ConfigRegistry (env_with_file ''my.cfg'' bad_label_file) (Some ''my.cfg'') True
       = Inl (KeyError ''BOGUS'')
   \<and> ConfigRegistry (env_with_file ''my.cfg'' bad_label_file) (Some ''my.cfg'') False
       = Inl (KeyError ''BOGUS'')"
  by (simp add: eval_defs bad_label_file_def Let_def)

text \<open>
  Claim C3 does not hold of the code, by the same defect. A file with a malformed
  boolean and an unknown enumeration label passes the structural validation and has two
  options with invalid values, but the load ends with the \<open>KeyError\<close> of the second:
  no error entry is logged for either.
\<close>

theorem invalid_enum_label_stops_accumulation:
  "validate_structure (env_with_file ''my.cfg'' two_bad_options_file) two_bad_options_file = []
   \<and> parse_config (env_with_file ''my.cfg'' two_bad_options_file) two_bad_options_file
       = Inl (KeyError ''BOGUS'')
   \<and> ConfigRegistry (env_with_file ''my.cfg'' two_bad_options_file) (Some ''my.cfg'') False
       = Inl (KeyError ''BOGUS'')"
  by (simp add: eval_defs two_bad_options_file_def Let_def)

subsection \<open>Accumulation of value errors\<close>

lemma from_config_raises:
  "from_config e raw d = Inl ex \<Longrightarrow> \<exists>explanation. ex = OptionParseFailure explanation"
  by (cases d)
    (auto simp: TimecodeValue_from_config_def TimecodeValue_init_def
      RangeValue_from_config_def RangeValue_init_def RangeValue_failure_def
      ScoreWeightsValue_from_config_def ScoreWeightsValue_init_def Let_def
      KernelSizeValue_from_config_def KernelSizeValue_init_def KernelSizeValue_failure_def
      split: option.splits if_splits list.splits)

lemma parse_value_returns:
  assumes "label_known e config command (option, dflt)"
    and "lookup2 config command option = Some raw"
  shows "\<exists>result. parse_value e command option dflt raw = Inr result"
proof (cases dflt)
  case (PyNumber n)
  then show ?thesis
    by (cases n) (simp_all split: option.splits)
next
  case (PyEnum cls d)
  with assms show ?thesis
    by (simp add: label_known_def normalized_label_def enum_getitem_def)
next
  case (PyValidated d)
  show ?thesis
  proof (cases "from_config e raw d")
    case (Inl ex)
    with from_config_raises [OF Inl] PyValidated show ?thesis by auto
  next
    case (Inr v)
    with PyValidated show ?thesis by simp
  qed
qed (simp_all add: Let_def split: option.splits)

lemma parse_options_accumulates:
  assumes "list_all (label_known e config command) declared"
  shows "\<exists>out'. parse_options e config command declared (out, errors)
           = Inr (out', errors @ concat (map (rejection e config command) declared))"
  using assms
proof (induction declared arbitrary: out errors)
  case Nil
  show ?case by simp
next
  case (Cons entry declared)
  obtain name dflt where entry: "entry = (name, dflt)" by (cases entry)
  from Cons.prems have known: "label_known e config command (name, dflt)"
    and rest: "list_all (label_known e config command) declared"
    by (simp_all add: entry)
  show ?case
  proof (cases "lookup2 config command name")
    case None
    with Cons.IH [OF rest, of out errors] show ?thesis
      by (simp add: entry rejection_def)
  next
    case (Some raw)
    from parse_value_returns [OF known Some] obtain result where
      result: "parse_value e command name dflt raw = Inr result" by blast
    show ?thesis
    proof (cases result)
      case (Stored v)
      with Cons.IH [OF rest, of "AList.update name v out" errors] Some result show ?thesis
        by (simp add: entry rejection_def)
    next
      case (Rejected line)
      with Cons.IH [OF rest, of out "errors @ [line]"] Some result show ?thesis
        by (simp add: entry rejection_def)
    qed
  qed
qed

lemma parse_sections_accumulates:
  assumes "list_all (\<lambda>(command, declared). list_all (label_known e config command) declared) schema"
  shows "\<exists>out_map'. parse_sections e config schema (out_map, errors)
           = Inr (out_map', errors @ concat (map (\<lambda>(command, declared).
                concat (map (rejection e config command) declared)) schema))"
  using assms
proof (induction schema arbitrary: out_map errors)
  case Nil
  show ?case by simp
next
  case (Cons entry schema)
  obtain command declared where entry: "entry = (command, declared)" by (cases entry)
  from Cons.prems have known: "list_all (label_known e config command) declared"
    and rest: "list_all (\<lambda>(command, declared). list_all (label_known e config command) declared) schema"
    by (simp_all add: entry)
  from parse_options_accumulates [OF known, of "[]" errors] obtain out where
    out: "parse_options e config command declared ([], errors)
           = Inr (out, errors @ concat (map (rejection e config command) declared))" by blast
  from Cons.IH [OF rest, of "AList.update command out out_map"
      "errors @ concat (map (rejection e config command) declared)"] out
  show ?case
    by (simp add: entry)
qed

text \<open>
  When every option of the file whose default is an enumeration member names a member,
  the value parser returns, and its errors are, in schema order, exactly one line for
  each option of the file whose value is rejected: an error does not stop the pass.
\<close>

theorem parse_config_accumulates:
  assumes "labels_known e config"
  shows "\<exists>out_map. parse_config e config =
     Inr (out_map, concat (map (\<lambda>(command, declared).
            concat (map (rejection e config command) declared)) (CONFIG_MAP e)))"
  using parse_sections_accumulates [of e config "CONFIG_MAP e" "[]" "[]"] assms
  by (simp add: parse_config_def labels_known_def)

theorem parse_config_accumulates_witness:
  "labels_known sample_env two_value_errors_file
   \<and> (\<exists>out_map. parse_config sample_env two_value_errors_file =
         Inr (out_map,
           [''Invalid [backend-pyav] value for suppress-output: maybe is not a valid yes/no value.'',
            ''Invalid [detect-content] value for threshold:'' @ [CHR 0x0A] @ ''  300.0''
              @ [CHR 0x0A] @ ''Value must be between 0.0 and 255.0.'']))"
proof -
  have known: "labels_known sample_env two_value_errors_file"
    by (simp add: labels_known_def label_known_def two_value_errors_file_def schema_defs)
  have lines: "concat (map (\<lambda>(command, declared).
        concat (map (rejection sample_env two_value_errors_file command) declared))
          (CONFIG_MAP sample_env))
    = [''Invalid [backend-pyav] value for suppress-output: maybe is not a valid yes/no value.'',
       ''Invalid [detect-content] value for threshold:'' @ [CHR 0x0A] @ ''  300.0''
         @ [CHR 0x0A] @ ''Value must be between 0.0 and 255.0.'']"
    by (simp add: rejection_def two_value_errors_file_def eval_defs reader_defs
        RangeValue_from_config_def RangeValue_reader_def RangeValue_init_def
        RangeValue_failure_def num_lt_def num_gt_def str_int_def)
  show ?thesis
    using parse_config_accumulates [OF known] known lines by simp
qed

lemma parse_value_unknown_label:
  assumes "\<not> label_known e config command (option, dflt)"
    and "lookup2 config command option = Some raw"
  shows "parse_value e command option dflt raw = Inl (KeyError (normalized_label e raw))"
  using assms
  by (cases dflt)
    (simp_all add: label_known_def normalized_label_def enum_getitem_def)

lemma parse_options_raises:
  assumes "\<not> list_all (label_known e config command) declared"
  shows "\<exists>name. parse_options e config command declared (out, errors) = Inl (KeyError name)"
  using assms
proof (induction declared arbitrary: out errors)
  case Nil
  then show ?case by simp
next
  case (Cons entry declared)
  obtain option dflt where entry: "entry = (option, dflt)" by (cases entry)
  show ?case
  proof (cases "label_known e config command (option, dflt)")
    case True
    with Cons.prems have rest: "\<not> list_all (label_known e config command) declared"
      by (simp add: entry)
    show ?thesis
    proof (cases "lookup2 config command option")
      case None
      with Cons.IH [OF rest, of out errors] show ?thesis
        by (simp add: entry)
    next
      case (Some raw)
      from parse_value_returns [OF True Some] obtain result where
        result: "parse_value e command option dflt raw = Inr result" by blast
      show ?thesis
      proof (cases result)
        case (Stored v)
        with Cons.IH [OF rest, of "AList.update option v out" errors] Some result show ?thesis
          by (simp add: entry)
      next
        case (Rejected line)
        with Cons.IH [OF rest, of out "errors @ [line]"] Some result show ?thesis
          by (simp add: entry)
      qed
    qed
  next
    case False
    then obtain raw where raw: "lookup2 config command option = Some raw"
      by (auto simp: label_known_def split: option.splits)
    from parse_value_unknown_label [OF False raw] raw show ?thesis
      by (simp add: entry)
  qed
qed

lemma parse_sections_raises:
  assumes "\<not> list_all (\<lambda>(command, declared). list_all (label_known e config command) declared) schema"
  shows "\<exists>name. parse_sections e config schema (out_map, errors) = Inl (KeyError name)"
  using assms
proof (induction schema arbitrary: out_map errors)
  case Nil
  then show ?case by simp
next
  case (Cons entry schema)
  obtain command declared where entry: "entry = (command, declared)" by (cases entry)
  show ?case
  proof (cases "list_all (label_known e config command) declared")
    case True
    with Cons.prems have rest:
      "\<not> list_all (\<lambda>(command, declared). list_all (label_known e config command) declared) schema"
      by (simp add: entry)
    from parse_options_accumulates [OF True, of "[]" errors] obtain out errors' where
      out: "parse_options e config command declared ([], errors) = Inr (out, errors')" by blast
    from Cons.IH [OF rest, of "AList.update command out out_map" errors'] out show ?thesis
      by (simp add: entry)
  next
    case False
    from parse_options_raises [OF False, of "[]" errors] show ?thesis
      by (auto simp: entry)
  qed
qed

text \<open>
  The value parser is left by a \<open>KeyError\<close> exactly when some option of the file whose
  default is an enumeration member names no member of the enumeration.
\<close>

theorem parse_config_raises_on_unknown_label:
  "(\<exists>name. parse_config e config = Inl (KeyError name)) = (\<not> labels_known e config)"
proof
  assume "\<exists>name. parse_config e config = Inl (KeyError name)"
  then show "\<not> labels_known e config"
    using parse_sections_accumulates [of e config "CONFIG_MAP e" "[]" "[]"]
    by (auto simp: parse_config_def labels_known_def)
next
  assume "\<not> labels_known e config"
  then show "\<exists>name. parse_config e config = Inl (KeyError name)"
    using parse_sections_raises [of e config "CONFIG_MAP e" "[]" "[]"]
    by (simp add: parse_config_def labels_known_def)
qed

theorem parse_config_raises_on_unknown_label_witness:
  "\<not> labels_known sample_env bad_label_file
   \<and> (\<exists>name. parse_config sample_env bad_label_file = Inl (KeyError name))
   \<and> labels_known sample_env good_file
   \<and> \<not> (\<exists>name. parse_config sample_env good_file = Inl (KeyError name))"
proof -
  have unknown: "\<not> labels_known sample_env bad_label_file"
    by (simp add: labels_known_def label_known_def normalized_label_def bad_label_file_def
        schema_defs text_defs sample_env_def)
  have known: "labels_known sample_env good_file"
    by (simp add: labels_known_def label_known_def normalized_label_def good_file_def
        schema_defs text_defs sample_env_def)
  show ?thesis
    using parse_config_raises_on_unknown_label [of sample_env bad_label_file]
      parse_config_raises_on_unknown_label [of sample_env good_file] unknown known
    by simp
qed

subsection \<open>The resolved map after a failed load\<close>

text \<open>
  Claim C1, as stated, fails. The file \<open>bad_flag_file\<close> passes the structural validation
  and has one value error (\<open>suppress-output = maybe\<close>) beside a good option
  (\<open>backend = pyav\<close>). \<open>_load_from_disk\<close> stores the parser's map in the registry before
  it looks at the errors, so the constructor, told not to raise, returns a registry that
  is not initialized and whose \<open>config_dict\<close> is not empty: \<open>get_value\<close> answers \<open>pyav\<close>
  from the file and not the schema default \<open>opencv\<close>.
\<close>

theorem failed_load_keeps_parsed_values:
  "ConfigRegistry (env_with_file ''my.cfg'' bad_flag_file) (Some ''my.cfg'') False
     = Inr bad_flag_registry
   \<and> \<not> initialized bad_flag_registry
   \<and> config_dict bad_flag_registry \<noteq> []
   \<and> get_value (env_with_file ''my.cfg'' bad_flag_file) bad_flag_registry
        ''global'' ''backend'' PyNone = Inr (PyStr ''pyav'')
   \<and> lookup2 (CONFIG_MAP (env_with_file ''my.cfg'' bad_flag_file)) ''global'' ''backend''
        = Some (PyStr ''opencv'')"
proof -
  let ?e = "env_with_file ''my.cfg'' bad_flag_file"
  have there: "path_exists ?e (config_path ?e (Some ''my.cfg''))"
    by (simp add: env_with_file_def config_path_def)
  have parsed: "read_config ?e (config_path ?e (Some ''my.cfg'')) = ReadOk bad_flag_file"
    by (simp add: env_with_file_def config_path_def)
  have "load_from_disk ?e (Some ''my.cfg'') fresh =
      (Some (ConfigLoadFailure (p_init_log bad_flag_registry) None), bad_flag_registry)"
    by (simp add: load_from_disk_existing [OF there]
        load_file_value_errors [OF parsed bad_flag_structure bad_flag_parse]
        fresh_def bad_flag_registry_def loading_entry_def)
  then have built: "ConfigRegistry ?e (Some ''my.cfg'') False = Inr bad_flag_registry"
    by (simp add: ConfigRegistry_def fresh_def bad_flag_registry_def)
  have rest: "\<not> initialized bad_flag_registry" "config_dict bad_flag_registry \<noteq> []"
    by (simp_all add: initialized_def config_dict_def bad_flag_registry_def)
  have got: "get_value ?e bad_flag_registry ''global'' ''backend'' PyNone = Inr (PyStr ''pyav'')"
    by (simp add: get_value_def bad_flag_registry_def empty_sections_def CONFIG_MAP_def lookup2_def)
  have dflt: "lookup2 (CONFIG_MAP ?e) ''global'' ''backend'' = Some (PyStr ''opencv'')"
    by (simp add: CONFIG_MAP_def lookup2_def)
  from built rest got dflt show ?thesis by simp
qed

lemma parse_options_keeps:
  assumes "parse_options e config command declared (out, errors) = Inr (out', errors')"
    and "option \<notin> fst ` set declared"
  shows "map_of out' option = map_of out option"
  using assms
proof (induction declared arbitrary: out errors)
  case Nil
  then show ?case by simp
next
  case (Cons entry declared)
  obtain name dflt where entry: "entry = (name, dflt)" by (cases entry)
  from Cons.prems(2) have other: "option \<noteq> name" and rest: "option \<notin> fst ` set declared"
    by (auto simp: entry)
  show ?case
  proof (cases "lookup2 config command name")
    case None
    with Cons.prems(1) have "parse_options e config command declared (out, errors) = Inr (out', errors')"
      by (simp add: entry)
    from Cons.IH [OF this rest] show ?thesis .
  next
    case (Some raw)
    show ?thesis
    proof (cases "parse_value e command name dflt raw")
      case (Inl ex)
      with Cons.prems(1) Some show ?thesis by (simp add: entry)
    next
      case (Inr result)
      show ?thesis
      proof (cases result)
        case (Stored w)
        with Cons.prems(1) Some Inr
        have "parse_options e config command declared (AList.update name w out, errors) = Inr (out', errors')"
          by (simp add: entry)
        from Cons.IH [OF this rest] other show ?thesis
          by (simp add: update_conv')
      next
        case (Rejected line)
        with Cons.prems(1) Some Inr
        have "parse_options e config command declared (out, errors @ [line]) = Inr (out', errors')"
          by (simp add: entry)
        from Cons.IH [OF this rest] show ?thesis .
      qed
    qed
  qed
qed

lemma parse_options_stores:
  assumes "parse_options e config command declared (out, errors) = Inr (out', errors')"
    and "distinct (map fst declared)"
    and "(option, dflt) \<in> set declared"
    and "lookup2 config command option = Some raw"
    and "parse_value e command option dflt raw = Inr (Stored v)"
  shows "map_of out' option = Some v"
  using assms(1,2,3)
proof (induction declared arbitrary: out errors)
  case Nil
  then show ?case by simp
next
  case (Cons entry declared)
  obtain name d where entry: "entry = (name, d)" by (cases entry)
  from Cons.prems(2) have fresh_name: "name \<notin> fst ` set declared"
    and rest_distinct: "distinct (map fst declared)"
    by (auto simp: entry)
  show ?case
  proof (cases "(option, dflt) \<in> set declared")
    case True
    from Cons.prems(1) obtain out1 errors1 where
      "parse_options e config command declared (out1, errors1) = Inr (out', errors')"
      by (cases "lookup2 config command name"; cases "parse_value e command name d (the (lookup2 config command name))")
        (auto simp: entry split: outcome.splits)
    from Cons.IH [OF this rest_distinct True] show ?thesis .
  next
    case False
    with Cons.prems(3) have same: "name = option" "d = dflt"
      by (auto simp: entry)
    with Cons.prems(1) assms(4,5)
    have "parse_options e config command declared (AList.update option v out, errors) = Inr (out', errors')"
      by (simp add: entry)
    from parse_options_keeps [OF this] fresh_name same show ?thesis
      by (simp add: update_conv')
  qed
qed

lemma parse_config_stores:
  assumes "parse_config e config = Inr (out_map, errors)"
    and "lookup2 (CONFIG_MAP e) command option = Some dflt"
    and "lookup2 config command option = Some raw"
    and "parse_value e command option dflt raw = Inr (Stored v)"
  shows "lookup2 out_map command option = Some v"
proof -
  from assms(1) have run: "parse_sections e config (CONFIG_MAP e) ([], []) = Inr (out_map, errors)"
    by (simp add: parse_config_def)
  from assms(2) obtain declared where declared: "map_of (CONFIG_MAP e) command = Some declared"
    and dflt: "map_of declared option = Some dflt"
    by (auto simp: lookup2_def split: option.splits)
  from declared have member: "(command, declared) \<in> set (CONFIG_MAP e)"
    by (rule map_of_SomeD)
  from dflt have entry: "(option, dflt) \<in> set declared"
    by (rule map_of_SomeD)
  from parse_sections_section [OF run CONFIG_MAP_distinct member]
  obtain out errs errs' where out: "map_of out_map command = Some out"
    and section_run: "parse_options e config command declared ([], errs) = Inr (out, errs')"
    by blast
  from parse_options_stores [OF section_run CONFIG_MAP_options_distinct [OF member] entry assms(3,4)]
  have "map_of out option = Some v" .
  with out show ?thesis
    by (simp add: lookup2_def)
qed

lemma parse_config_rejections:
  assumes "labels_known e config"
  shows "\<exists>out_map. parse_config e config = Inr (out_map, rejections e config)"
  using parse_sections_accumulates [of e config "CONFIG_MAP e" "[]" "[]"] assms
  by (simp add: parse_config_def labels_known_def rejections_def)

text \<open>
  Claim C1, amended. For a file that was read: when the structural validation reports
  an error, none of the load's values are adopted. The constructor raises the failure,
  whose log has one error entry for each structural error, or, told not to, returns a
  registry that is not initialized and whose \<open>config_dict\<close> is empty, so that every option
  is at its default. When the structure is valid, every option of the file whose
  default is an enumeration member names a member, and some value is rejected, the
  load fails in the same way, with one error entry for each rejected value; but
  \<open>config_dict\<close> is then the map the value parser built: its keys are the sections of
  the schema, and an option has an entry exactly when the schema declares it, the file
  sets it and its value parsed, the entry being the parsed value. (A file that sets such
  an option to a label that is no member is left out here; the load then ends with
  \<open>KeyError\<close>.)
\<close>

theorem failed_load_resolved_map:
  assumes "path_exists e (config_path e path)"
    and "read_config e (config_path e path) = ReadOk config"
  shows "(validate_structure e config \<noteq> [] \<longrightarrow>
            ConfigRegistry e path True =
              Inl (ConfigLoadFailure
                     (loading_entry e path # map (Pair ERROR) (validate_structure e config)) None)
            \<and> (\<exists>r. ConfigRegistry e path False = Inr r \<and> \<not> initialized r
                  \<and> config_dict r = []
                  \<and> (\<forall>command option. is_default r command option)))
    \<and> (validate_structure e config = [] \<and> labels_known e config \<and> rejections e config \<noteq> [] \<longrightarrow>
            ConfigRegistry e path True =
              Inl (ConfigLoadFailure
                     (loading_entry e path # map (Pair ERROR) (rejections e config)) None)
            \<and> (\<exists>r. ConfigRegistry e path False = Inr r \<and> \<not> initialized r
                  \<and> map fst (config_dict r) = map fst (CONFIG_MAP e)
                  \<and> (\<forall>command option v.
                        (lookup2 (config_dict r) command option = Some v) =
                        (\<exists>dflt raw. lookup2 (CONFIG_MAP e) command option = Some dflt
                           \<and> lookup2 config command option = Some raw
                           \<and> parse_value e command option dflt raw = Inr (Stored v)))))"
proof -
  have structural: "validate_structure e config \<noteq> [] \<Longrightarrow>
      load_from_disk e path fresh =
        (Some (ConfigLoadFailure
                 (loading_entry e path # map (Pair ERROR) (validate_structure e config)) None),
         \<lparr>p_config = [],
          p_init_log = loading_entry e path # map (Pair ERROR) (validate_structure e config),
          p_initialized = False\<rparr>)"
    by (simp add: load_from_disk_existing [OF assms(1)] load_file_structural [OF assms(2)]
        fresh_def)
  have first: "validate_structure e config \<noteq> [] \<Longrightarrow>
      ConfigRegistry e path True =
        Inl (ConfigLoadFailure
               (loading_entry e path # map (Pair ERROR) (validate_structure e config)) None)
      \<and> (\<exists>r. ConfigRegistry e path False = Inr r \<and> \<not> initialized r \<and> config_dict r = []
            \<and> (\<forall>command option. is_default r command option))"
    using structural
    by (simp add: ConfigRegistry_def fresh_def initialized_def config_dict_def is_default_def
        lookup2_def)
  have second: "ConfigRegistry e path True =
        Inl (ConfigLoadFailure (loading_entry e path # map (Pair ERROR) (rejections e config)) None)
      \<and> (\<exists>r. ConfigRegistry e path False = Inr r \<and> \<not> initialized r
            \<and> map fst (config_dict r) = map fst (CONFIG_MAP e)
            \<and> (\<forall>command option v.
                  (lookup2 (config_dict r) command option = Some v) =
                  (\<exists>dflt raw. lookup2 (CONFIG_MAP e) command option = Some dflt
                     \<and> lookup2 config command option = Some raw
                     \<and> parse_value e command option dflt raw = Inr (Stored v))))"
    if valid: "validate_structure e config = []" and known: "labels_known e config"
      and some: "rejections e config \<noteq> []"
  proof -
    from parse_config_rejections [OF known] obtain out_map where
      parsed: "parse_config e config = Inr (out_map, rejections e config)" by blast
    have loaded: "load_from_disk e path fresh =
        (Some (ConfigLoadFailure
                 (loading_entry e path # map (Pair ERROR) (rejections e config)) None),
         \<lparr>p_config = out_map,
          p_init_log = loading_entry e path # map (Pair ERROR) (rejections e config),
          p_initialized = False\<rparr>)"
      by (simp add: load_from_disk_existing [OF assms(1)]
          load_file_value_errors [OF assms(2) valid parsed some] fresh_def)
    have entries: "(lookup2 out_map command option = Some v) =
        (\<exists>dflt raw. lookup2 (CONFIG_MAP e) command option = Some dflt
           \<and> lookup2 config command option = Some raw
           \<and> parse_value e command option dflt raw = Inr (Stored v))" for command option v
      using parse_config_shape(3) [OF parsed] parse_config_stores [OF parsed]
      by blast
    from loaded entries parse_config_shape(1) [OF parsed] show ?thesis
      by (simp add: ConfigRegistry_def fresh_def initialized_def config_dict_def)
  qed
  show ?thesis
    using first second by blast
qed

theorem failed_load_resolved_map_witness:
  "(\<exists>r. ConfigRegistry (env_with_file ''my.cfg'' unknown_section_file) (Some ''my.cfg'') False
           = Inr r \<and> \<not> initialized r \<and> config_dict r = [])
   \<and> validate_structure (env_with_file ''my.cfg'' bad_flag_file) bad_flag_file = []
   \<and> labels_known (env_with_file ''my.cfg'' bad_flag_file) bad_flag_file
   \<and> rejections (env_with_file ''my.cfg'' bad_flag_file) bad_flag_file = [bad_flag_line]
   \<and> ConfigRegistry (env_with_file ''my.cfg'' bad_flag_file) (Some ''my.cfg'') True
       = Inl (ConfigLoadFailure
           [(INFO, ''Loading config from file:'' @ [CHR 0x0A] @ ''  my.cfg''),
            (ERROR, bad_flag_line)] None)
   \<and> (\<exists>r. ConfigRegistry (env_with_file ''my.cfg'' bad_flag_file) (Some ''my.cfg'') False
           = Inr r \<and> \<not> initialized r
         \<and> map fst (config_dict r) = map fst (CONFIG_MAP (env_with_file ''my.cfg'' bad_flag_file))
         \<and> lookup2 (config_dict r) ''global'' ''backend'' = Some (PyStr ''pyav'')
         \<and> lookup2 (config_dict r) ''backend-pyav'' ''suppress-output'' = None)"
proof -
  let ?e = "env_with_file ''my.cfg'' unknown_section_file"
  let ?f = "env_with_file ''my.cfg'' bad_flag_file"
  have there: "path_exists ?e (config_path ?e (Some ''my.cfg''))"
      "path_exists ?f (config_path ?f (Some ''my.cfg''))"
    by (simp_all add: env_with_file_def config_path_def)
  have parsed: "read_config ?e (config_path ?e (Some ''my.cfg'')) = ReadOk unknown_section_file"
      "read_config ?f (config_path ?f (Some ''my.cfg'')) = ReadOk bad_flag_file"
    by (simp_all add: env_with_file_def config_path_def)
  have lines: "validate_structure ?e unknown_section_file \<noteq> []"
    by (simp add: validate_structure_def unknown_section_file_def schema_defs)
  have known: "labels_known ?f bad_flag_file"
    by (simp add: labels_known_def label_known_def bad_flag_file_def schema_defs)
  have rejected: "rejections ?f bad_flag_file = [bad_flag_line]"
    by (simp add: rejections_def rejection_def bad_flag_file_def bad_flag_line_def eval_defs)
  have backend: "lookup2 (CONFIG_MAP ?f) ''global'' ''backend'' = Some (PyStr ''opencv'')"
      "lookup2 bad_flag_file ''global'' ''backend'' = Some ''pyav''"
      "parse_value ?f ''global'' ''backend'' (PyStr ''opencv'') ''pyav'' = Inr (Stored (PyStr ''pyav''))"
    by (simp_all add: bad_flag_file_def eval_defs)
  have flag: "lookup2 (CONFIG_MAP ?f) ''backend-pyav'' ''suppress-output'' = Some (PyBool False)"
      "lookup2 bad_flag_file ''backend-pyav'' ''suppress-output'' = Some ''maybe''"
      "parse_value ?f ''backend-pyav'' ''suppress-output'' (PyBool False) ''maybe''
         = Inr (Rejected bad_flag_line)"
    by (simp_all add: bad_flag_file_def bad_flag_line_def eval_defs)
  from failed_load_resolved_map [OF there(1) parsed(1)] lines
  have one: "\<exists>r. ConfigRegistry ?e (Some ''my.cfg'') False = Inr r \<and> \<not> initialized r
       \<and> config_dict r = []"
    by blast
  from failed_load_resolved_map [OF there(2) parsed(2)] bad_flag_structure known rejected
  have raised: "ConfigRegistry ?f (Some ''my.cfg'') True =
        Inl (ConfigLoadFailure
               (loading_entry ?f (Some ''my.cfg'') # map (Pair ERROR) [bad_flag_line]) None)"
    and "\<exists>r. ConfigRegistry ?f (Some ''my.cfg'') False = Inr r \<and> \<not> initialized r
       \<and> map fst (config_dict r) = map fst (CONFIG_MAP ?f)
       \<and> (\<forall>command option v.
             (lookup2 (config_dict r) command option = Some v) =
             (\<exists>dflt raw. lookup2 (CONFIG_MAP ?f) command option = Some dflt
                \<and> lookup2 bad_flag_file command option = Some raw
                \<and> parse_value ?f command option dflt raw = Inr (Stored v)))"
    by simp_all
  then obtain r where r: "ConfigRegistry ?f (Some ''my.cfg'') False = Inr r" "\<not> initialized r"
      "map fst (config_dict r) = map fst (CONFIG_MAP ?f)"
    and entries: "\<And>command option v.
             (lookup2 (config_dict r) command option = Some v) =
             (\<exists>dflt raw. lookup2 (CONFIG_MAP ?f) command option = Some dflt
                \<and> lookup2 bad_flag_file command option = Some raw
                \<and> parse_value ?f command option dflt raw = Inr (Stored v))"
    by blast
  from entries [of "''global''" "''backend''" "PyStr ''pyav''"] backend
  have stored: "lookup2 (config_dict r) ''global'' ''backend'' = Some (PyStr ''pyav'')"
    by simp
  have absent: "lookup2 (config_dict r) ''backend-pyav'' ''suppress-output'' = None"
  proof (cases "lookup2 (config_dict r) ''backend-pyav'' ''suppress-output''")
    case None
    then show ?thesis .
  next
    case (Some v)
    with entries [of "''backend-pyav''" "''suppress-output''" v] flag show ?thesis
      by simp
  qed
  from raised have raised': "ConfigRegistry ?f (Some ''my.cfg'') True
       = Inl (ConfigLoadFailure
           [(INFO, ''Loading config from file:'' @ [CHR 0x0A] @ ''  my.cfg''),
            (ERROR, bad_flag_line)] None)"
    by (simp add: loading_entry_def)
  from one bad_flag_structure known rejected raised' r stored absent show ?thesis
    by blast
qed

subsection \<open>A range that holds NaN\<close>

text \<open>
  Claim C6 does not hold of the code. \<open>float('nan')\<close> is NaN, which is neither below
  \<open>min_val\<close> nor above \<open>max_val\<close>, so the test of \<open>RangeValue.__init__\<close> lets it pass although
  it is not in the interval: \<open>0.0 <= nan\<close> and \<open>nan <= 255.0\<close> are both false. A file with
  \<open>threshold = nan\<close> loads without an error, and \<open>get_value\<close> returns NaN as the threshold.
\<close>

theorem RangeValue_accepts_nan:
  "float_of_str sample_env ''nan'' = Some NaN
   \<and> \<not> num_le (PyFloat (Finite 0)) (PyFloat NaN)
   \<and> \<not> num_le (PyFloat NaN) (PyFloat (Finite 255))
   \<and> RangeValue_init (PyFloat NaN) (PyFloat (Finite 0)) (PyFloat (Finite 255))
       = Inr (RangeValue (PyFloat NaN) (PyFloat (Finite 0)) (PyFloat (Finite 255)))
   \<and> RangeValue_from_config sample_env ''nan'' (PyFloat (Finite 27)) (PyFloat (Finite 0))
         (PyFloat (Finite 255))
       = Inr (RangeValue (PyFloat NaN) (PyFloat (Finite 0)) (PyFloat (Finite 255)))
   \<and> ConfigRegistry (env_with_file ''my.cfg'' nan_threshold_file) (Some ''my.cfg'') True
       = Inr nan_threshold_registry
   \<and> get_value (env_with_file ''my.cfg'' nan_threshold_file) nan_threshold_registry
         ''detect-content'' ''threshold'' PyNone = Inr (PyNumber (PyFloat NaN))"
  by (simp add: eval_defs reader_defs num_le_def num_lt_def num_gt_def num_eq_def
      RangeValue_init_def RangeValue_from_config_def RangeValue_reader_def
      nan_threshold_file_def nan_threshold_registry_def empty_sections_def Let_def
      get_value_def)

end
